theory Spec2Isabelle
  imports Main "HOL-Library.Word"
begin

unbundle bit_operations_syntax

section \<open>Python values\<close>

text \<open>
  The bot is dynamically typed: every argument of a validator or of a client call may be
  any Python object. The values that occur (arguments, JSON documents, entries of the
  parameter dictionaries) are modelled by one datatype. A \<open>str\<close> is a \<open>string\<close> (a list
  of 8-bit characters, read as the UTF-8 encoding of the text); \<open>upper\<close>, \<open>strip\<close> and the
  digits of a number act on its ASCII characters. A \<open>dict\<close> with string keys is an
  association list in insertion order, as Python keeps it.

  Binary floating point is not modelled: the type of floats is the type variable \<open>'f\<close>, and
  what the code does with a float (rendering it with \<open>str\<close>, testing it for zero,
  converting a \<open>Decimal\<close> to it) is taken from the record \<open>pylib\<close>, as is the \<open>repr\<close> of
  a list or dictionary.
\<close>

datatype 'f pyval =
    PNone
  | PBool bool
  | PInt int
  | PFloat 'f
  | PStr string
  | PList "'f pyval list"
  | PDict "(string \<times> 'f pyval) list"

type_synonym 'f dict = "(string \<times> 'f pyval) list"

text \<open>The value of a \<open>decimal.Decimal\<close>: sign, coefficient and exponent, or a special value.\<close>

datatype decimal =
    DFinite bool nat int
  | DInfinity bool
  | DNaN bool

record 'f pylib =
  float_str :: "'f \<Rightarrow> string"
  float_truthy :: "'f \<Rightarrow> bool"
  float_of_decimal :: "decimal \<Rightarrow> 'f"
  container_str :: "'f pyval \<Rightarrow> string"

text \<open>The exception classes that occur. \<open>BinanceAPIError\<close> is the class of \<open>client.py\<close> with its
  fields \<open>status_code\<close>, \<open>error_code\<close> and \<open>message\<close>; \<open>ValidationError\<close> is the class of
  \<open>validators.py\<close>; the others are Python's own.\<close>

datatype 'f exn =
    ValidationError string
  | BinanceAPIError int "'f pyval" "'f pyval"
  | ValueError string
  | AttributeError string
  | InvalidOperation

subsection \<open>Truth value, \<open>str\<close>, dictionaries\<close>

fun truthy :: "'f pylib \<Rightarrow> 'f pyval \<Rightarrow> bool" where
  "truthy L PNone = False"
| "truthy L (PBool b) = b"
| "truthy L (PInt i) = (i \<noteq> 0)"
| "truthy L (PFloat x) = float_truthy L x"
| "truthy L (PStr s) = (s \<noteq> [])"
| "truthy L (PList xs) = (xs \<noteq> [])"
| "truthy L (PDict d) = (d \<noteq> [])"

definition digit_char :: "nat \<Rightarrow> char" where
  "digit_char n = ''0123456789'' ! n"

function str_nat :: "nat \<Rightarrow> string" where
  "str_nat n = (if n < 10 then [digit_char n] else str_nat (n div 10) @ [digit_char (n mod 10)])"
  by pat_completeness auto
termination
  by (relation "measure id") auto

declare str_nat.simps [simp del]

definition str_int :: "int \<Rightarrow> string" where
  "str_int i = (if i < 0 then CHR ''-'' # str_nat (nat (- i)) else str_nat (nat i))"

fun py_str :: "'f pylib \<Rightarrow> 'f pyval \<Rightarrow> string" where
  "py_str L PNone = ''None''"
| "py_str L (PBool b) = (if b then ''True'' else ''False'')"
| "py_str L (PInt i) = str_int i"
| "py_str L (PFloat x) = float_str L x"
| "py_str L (PStr s) = s"
| "py_str L (PList xs) = container_str L (PList xs)"
| "py_str L (PDict d) = container_str L (PDict d)"

fun type_name :: "'f pyval \<Rightarrow> string" where
  "type_name PNone = ''NoneType''"
| "type_name (PBool b) = ''bool''"
| "type_name (PInt i) = ''int''"
| "type_name (PFloat x) = ''float''"
| "type_name (PStr s) = ''str''"
| "type_name (PList xs) = ''list''"
| "type_name (PDict d) = ''dict''"

text \<open>The message of the \<open>AttributeError\<close> of a method call on an object without it.\<close>

definition no_attribute :: "'f pyval \<Rightarrow> string \<Rightarrow> 'f exn" where
  "no_attribute v a =
     AttributeError ([CHR 0x27] @ type_name v @ [CHR 0x27] @ '' object has no attribute ''
                     @ [CHR 0x27] @ a @ [CHR 0x27])"

text \<open>\<open>d[k] = v\<close>: an existing key keeps its place and takes the new value, a new key goes last.\<close>

fun dict_set :: "'f dict \<Rightarrow> string \<Rightarrow> 'f pyval \<Rightarrow> 'f dict" where
  "dict_set [] k v = [(k, v)]"
| "dict_set ((k', v') # d) k v = (if k' = k then (k, v) # d else (k', v') # dict_set d k v)"

text \<open>\<open>d.get(k)\<close> is \<open>None\<close> for a missing key, \<open>d.get(k, default)\<close> the default.\<close>

definition dict_get :: "'f dict \<Rightarrow> string \<Rightarrow> 'f pyval" where
  "dict_get d k = (case map_of d k of None \<Rightarrow> PNone | Some v \<Rightarrow> v)"

definition dict_get_default :: "'f dict \<Rightarrow> string \<Rightarrow> 'f pyval \<Rightarrow> 'f pyval" where
  "dict_get_default d k dflt = (case map_of d k of None \<Rightarrow> dflt | Some v \<Rightarrow> v)"

subsection \<open>String methods\<close>

definition upper_char :: "char \<Rightarrow> char" where
  "upper_char c =
     (case map_of (zip ''abcdefghijklmnopqrstuvwxyz'' ''ABCDEFGHIJKLMNOPQRSTUVWXYZ'') c of
        None \<Rightarrow> c
      | Some u \<Rightarrow> u)"

definition lower_char :: "char \<Rightarrow> char" where
  "lower_char c =
     (case map_of (zip ''ABCDEFGHIJKLMNOPQRSTUVWXYZ'' ''abcdefghijklmnopqrstuvwxyz'') c of
        None \<Rightarrow> c
      | Some l \<Rightarrow> l)"

definition upper :: "string \<Rightarrow> string" where
  "upper s = map upper_char s"

definition lower :: "string \<Rightarrow> string" where
  "lower s = map lower_char s"

text \<open>The ASCII characters that \<open>str.strip\<close> removes: tab to carriage return, the four
  separators \<open>0x1C\<close> to \<open>0x1F\<close>, and the space.\<close>

definition is_space :: "char \<Rightarrow> bool" where
  "is_space c =
     (c \<in> set [CHR 0x09, CHR 0x0A, CHR 0x0B, CHR 0x0C, CHR 0x0D,
                CHR 0x1C, CHR 0x1D, CHR 0x1E, CHR 0x1F, CHR 0x20])"

definition strip :: "string \<Rightarrow> string" where
  "strip s = rev (dropWhile is_space (rev (dropWhile is_space s)))"

definition endswith :: "string \<Rightarrow> string \<Rightarrow> bool" where
  "endswith s suf = (length suf \<le> length s \<and> drop (length s - length suf) s = suf)"

section \<open>The \<open>Decimal\<close> constructor and comparison\<close>

text \<open>
  \<open>Decimal(s)\<close> of a string, after the grammar of the \<open>decimal\<close> module: surrounding
  whitespace is stripped and underscores are removed; then an optional sign, followed by
  digits with an optional fraction and an optional exponent, or \<open>Inf\<close>/\<open>Infinity\<close>, or
  \<open>NaN\<close>/\<open>sNaN\<close> with optional diagnostic digits, letters in either case. Any other string
  raises \<open>InvalidOperation\<close>. Coefficient and exponent are unbounded here; the limits of the
  C implementation (exponents of about eighteen digits) are left out, as are digits and
  spaces outside ASCII.
\<close>

definition is_digit :: "char \<Rightarrow> bool" where
  "is_digit c = (c \<in> set ''0123456789'')"

definition digit_val :: "char \<Rightarrow> nat" where
  "digit_val c =
     (case map_of (zip ''0123456789'' [0, 1, 2, 3, 4, 5, 6, 7, 8, 9]) c of
        None \<Rightarrow> 0
      | Some n \<Rightarrow> n)"

definition digits_val :: "string \<Rightarrow> nat" where
  "digits_val ds = foldl (\<lambda>a c. 10 * a + digit_val c) 0 ds"

fun split_sign :: "string \<Rightarrow> bool \<times> string" where
  "split_sign [] = (False, [])"
| "split_sign (c # cs) =
     (if c = CHR ''-'' then (True, cs) else if c = CHR ''+'' then (False, cs) else (False, c # cs))"

definition parse_exponent :: "string \<Rightarrow> int option" where
  "parse_exponent s =
     (case s of
        [] \<Rightarrow> Some 0
      | c # cs \<Rightarrow>
          if c = CHR ''e'' \<or> c = CHR ''E'' then
            (case split_sign cs of
               (neg, ds) \<Rightarrow>
                 if ds \<noteq> [] \<and> list_all is_digit ds
                 then Some (if neg then - int (digits_val ds) else int (digits_val ds))
                 else None)
          else None)"

definition parse_number :: "string \<Rightarrow> (nat \<times> int) option" where
  "parse_number s =
     (let ip = takeWhile is_digit s;
          r1 = dropWhile is_digit s;
          fp = (case r1 of [] \<Rightarrow> [] | c # cs \<Rightarrow> if c = CHR ''.'' then takeWhile is_digit cs else []);
          r2 = (case r1 of [] \<Rightarrow> [] | c # cs \<Rightarrow> if c = CHR ''.'' then dropWhile is_digit cs else r1)
      in if ip = [] \<and> fp = [] then None
         else (case parse_exponent r2 of
                 None \<Rightarrow> None
               | Some e \<Rightarrow> Some (digits_val (ip @ fp), e - int (length fp))))"

definition decimal_of_string :: "string \<Rightarrow> decimal option" where
  "decimal_of_string v =
     (case split_sign (filter (\<lambda>c. c \<noteq> CHR ''_'') (strip v)) of
        (neg, r) \<Rightarrow>
          let l = lower r in
          if l = ''inf'' \<or> l = ''infinity'' then Some (DInfinity neg)
          else if take 3 l = ''nan'' \<and> list_all is_digit (drop 3 l) then Some (DNaN neg)
          else if take 4 l = ''snan'' \<and> list_all is_digit (drop 4 l) then Some (DNaN neg)
          else (case parse_number r of
                  None \<Rightarrow> None
                | Some (c, e) \<Rightarrow> Some (DFinite neg c e)))"

definition Decimal :: "string \<Rightarrow> 'f exn + decimal" where
  "Decimal v = (case decimal_of_string v of None \<Rightarrow> Inl InvalidOperation | Some d \<Rightarrow> Inr d)"

text \<open>\<open>d <= 0\<close>: an ordering comparison with a NaN signals \<open>InvalidOperation\<close>, which the
  default context traps, so it raises.\<close>

definition decimal_le_zero :: "decimal \<Rightarrow> 'f exn + bool" where
  "decimal_le_zero d =
     (case d of
        DNaN neg \<Rightarrow> Inl InvalidOperation
      | DInfinity neg \<Rightarrow> Inr neg
      | DFinite neg c e \<Rightarrow> Inr (c = 0 \<or> neg))"

section \<open>The validators (\<open>bot/validators.py\<close>)\<close>

definition VALID_SIDES :: "string list" where
  "VALID_SIDES = [''BUY'', ''SELL'']"

definition VALID_ORDER_TYPES :: "string list" where
  "VALID_ORDER_TYPES = [''MARKET'', ''LIMIT'']"

definition validate_symbol :: "'f pylib \<Rightarrow> 'f pyval \<Rightarrow> 'f exn + string" where
  "validate_symbol L symbol =
     (if \<not> truthy L symbol then Inl (ValidationError ''Symbol is required'')
      else case symbol of
        PStr s \<Rightarrow>
          (let s' = strip (upper s) in
           if \<not> endswith s' ''USDT''
           then Inl (ValidationError (''Invalid symbol format: '' @ s' @ ''. Must end with USDT''))
           else Inr s')
      | _ \<Rightarrow> Inl (no_attribute symbol ''upper''))"

definition validate_side :: "'f pylib \<Rightarrow> 'f pyval \<Rightarrow> 'f exn + string" where
  "validate_side L side =
     (if \<not> truthy L side then Inl (ValidationError ''Side is required'')
      else case side of
        PStr s \<Rightarrow>
          (let s' = strip (upper s) in
           if s' \<notin> set VALID_SIDES
           then Inl (ValidationError (''Invalid side: '' @ s' @ ''. Must be BUY or SELL''))
           else Inr s')
      | _ \<Rightarrow> Inl (no_attribute side ''upper''))"

definition validate_order_type :: "'f pylib \<Rightarrow> 'f pyval \<Rightarrow> 'f exn + string" where
  "validate_order_type L order_type =
     (if \<not> truthy L order_type then Inl (ValidationError ''Order type is required'')
      else case order_type of
        PStr s \<Rightarrow>
          (let s' = strip (upper s) in
           if s' \<notin> set VALID_ORDER_TYPES
           then Inl (ValidationError (''Invalid order type: '' @ s' @ ''. Must be MARKET or LIMIT''))
           else Inr s')
      | _ \<Rightarrow> Inl (no_attribute order_type ''upper''))"

definition validate_quantity :: "'f pylib \<Rightarrow> 'f pyval \<Rightarrow> 'f exn + 'f" where
  "validate_quantity L quantity =
     (case quantity of
        PNone \<Rightarrow> Inl (ValidationError ''Quantity is required'')
      | _ \<Rightarrow>
        (case (Decimal (py_str L quantity) :: 'f exn + decimal) of
           Inl e \<Rightarrow> Inl (ValidationError (''Invalid quantity: '' @ py_str L quantity))
         | Inr qty \<Rightarrow>
             (case decimal_le_zero qty of
                Inl e \<Rightarrow> Inl e
              | Inr le \<Rightarrow>
                  if le then Inl (ValidationError ''Quantity must be greater than 0'')
                  else Inr (float_of_decimal L qty))))"

definition validate_price :: "'f pylib \<Rightarrow> 'f pyval \<Rightarrow> string \<Rightarrow> 'f exn + 'f option" where
  "validate_price L price order_type =
     (if order_type = ''LIMIT'' then
        (case price of
           PNone \<Rightarrow> Inl (ValidationError ''Price is required for LIMIT orders'')
         | _ \<Rightarrow>
           (case (Decimal (py_str L price) :: 'f exn + decimal) of
              Inl e \<Rightarrow> Inl (ValidationError (''Invalid price: '' @ py_str L price))
            | Inr p \<Rightarrow>
                (case decimal_le_zero p of
                   Inl e \<Rightarrow> Inl e
                 | Inr le \<Rightarrow>
                     if le then Inl (ValidationError ''Price must be greater than 0'')
                     else Inr (Some (float_of_decimal L p)))))
      else Inr None)"

text \<open>The dictionary \<open>validated\<close> has the five keys below and no other; it is a record here.\<close>

record 'f validated =
  v_symbol :: string
  v_side :: string
  v_order_type :: string
  v_quantity :: 'f
  v_price :: "'f option"

definition validate_order_params ::
  "'f pylib \<Rightarrow> 'f pyval \<Rightarrow> 'f pyval \<Rightarrow> 'f pyval \<Rightarrow> 'f pyval \<Rightarrow> 'f pyval \<Rightarrow> 'f exn + 'f validated" where
  "validate_order_params L symbol side order_type quantity price =
     (case validate_symbol L symbol of Inl e \<Rightarrow> Inl e | Inr sy \<Rightarrow>
     (case validate_side L side of Inl e \<Rightarrow> Inl e | Inr si \<Rightarrow>
     (case validate_order_type L order_type of Inl e \<Rightarrow> Inl e | Inr ot \<Rightarrow>
     (case validate_quantity L quantity of Inl e \<Rightarrow> Inl e | Inr q \<Rightarrow>
     (case validate_price L price ot of Inl e \<Rightarrow> Inl e | Inr p \<Rightarrow>
        Inr \<lparr>v_symbol = sy, v_side = si, v_order_type = ot, v_quantity = q, v_price = p\<rparr>)))))"

section \<open>HMAC-SHA256 and \<open>urlencode\<close>\<close>

text \<open>
  \<open>hashlib.sha256\<close> after FIPS 180-4 and \<open>hmac.new(key, msg, sha256)\<close> after RFC 2104, on
  bytes; \<open>hexdigest\<close> renders the 32 bytes of the digest with the digits \<open>0123456789abcdef\<close>.
\<close>

type_synonym byte = "8 word"
type_synonym w32 = "32 word"

definition rotr :: "nat \<Rightarrow> w32 \<Rightarrow> w32" where
  "rotr n x = drop_bit n x OR push_bit (32 - n) x"

definition Ch :: "w32 \<Rightarrow> w32 \<Rightarrow> w32 \<Rightarrow> w32" where
  "Ch x y z = (x AND y) XOR (NOT x AND z)"

definition Maj :: "w32 \<Rightarrow> w32 \<Rightarrow> w32 \<Rightarrow> w32" where
  "Maj x y z = (x AND y) XOR (x AND z) XOR (y AND z)"

definition bsig0 :: "w32 \<Rightarrow> w32" where
  "bsig0 x = rotr 2 x XOR rotr 13 x XOR rotr 22 x"

definition bsig1 :: "w32 \<Rightarrow> w32" where
  "bsig1 x = rotr 6 x XOR rotr 11 x XOR rotr 25 x"

definition ssig0 :: "w32 \<Rightarrow> w32" where
  "ssig0 x = rotr 7 x XOR rotr 18 x XOR drop_bit 3 x"

definition ssig1 :: "w32 \<Rightarrow> w32" where
  "ssig1 x = rotr 17 x XOR rotr 19 x XOR drop_bit 10 x"

text \<open>
  The round constants are the first 32 bits of the fractional parts of the cube roots of the
  first 64 primes, the initial hash value those of the square roots of the first 8 primes.
  \<open>iroot k n\<close> is the integer part of the \<open>k\<close>-th root of \<open>n\<close>, found by bisection.
\<close>

definition is_prime :: "nat \<Rightarrow> bool" where
  "is_prime n = (2 \<le> n \<and> list_all (\<lambda>d. n mod d \<noteq> 0) [2..<n])"

definition first_primes :: "nat \<Rightarrow> nat list" where
  "first_primes k = take k (filter is_prime [2..<312])"

function iroot_between :: "nat \<Rightarrow> nat \<Rightarrow> nat \<Rightarrow> nat \<Rightarrow> nat" where
  "iroot_between k n lo hi =
     (if hi \<le> lo then lo
      else let m = (lo + hi + 1) div 2
           in if m ^ k \<le> n then iroot_between k n m hi else iroot_between k n lo (m - 1))"
  by pat_completeness auto
termination
  by (relation "measure (\<lambda>(k, n, lo, hi). hi - lo)") auto

declare iroot_between.simps [simp del]

definition iroot :: "nat \<Rightarrow> nat \<Rightarrow> nat" where
  "iroot k n = iroot_between k n 0 n"

definition sha256_K :: "w32 list" where
  "sha256_K = map (\<lambda>p. of_nat (iroot 3 (p * 2 ^ 96))) (first_primes 64)"

type_synonym sha_state = "w32 \<times> w32 \<times> w32 \<times> w32 \<times> w32 \<times> w32 \<times> w32 \<times> w32"

definition sha256_H0 :: sha_state where
  "sha256_H0 =
     (case map (\<lambda>p. of_nat (iroot 2 (p * 2 ^ 64))) (first_primes 8) of
        [a, b, c, d, e, f, g, h] \<Rightarrow> (a, b, c, d, e, f, g, h)
      | _ \<Rightarrow> (0, 0, 0, 0, 0, 0, 0, 0))"

definition be32 :: "byte list \<Rightarrow> w32" where
  "be32 bs = foldl (\<lambda>a b. push_bit 8 a OR ucast b) 0 bs"

fun words_of :: "nat \<Rightarrow> byte list \<Rightarrow> w32 list" where
  "words_of 0 bs = []"
| "words_of (Suc n) bs = be32 (take 4 bs) # words_of n (drop 4 bs)"

fun schedule :: "nat \<Rightarrow> w32 list \<Rightarrow> w32 list" where
  "schedule 0 w = w"
| "schedule (Suc n) w =
     (let t = length w
      in schedule n (w @ [ssig1 (w ! (t - 2)) + w ! (t - 7) + ssig0 (w ! (t - 15)) + w ! (t - 16)]))"

fun sha_round :: "sha_state \<Rightarrow> w32 \<times> w32 \<Rightarrow> sha_state" where
  "sha_round (a, b, c, d, e, f, g, h) (k, w) =
     (let t1 = h + bsig1 e + Ch e f g + k + w;
          t2 = bsig0 a + Maj a b c
      in (t1 + t2, a, b, c, d + t1, e, f, g))"

fun sha_add :: "sha_state \<Rightarrow> sha_state \<Rightarrow> sha_state" where
  "sha_add (a, b, c, d, e, f, g, h) (a', b', c', d', e', f', g', h') =
     (a + a', b + b', c + c', d + d', e + e', f + f', g + g', h + h')"

definition sha256_block :: "sha_state \<Rightarrow> byte list \<Rightarrow> sha_state" where
  "sha256_block st block =
     sha_add st (foldl sha_round st (zip sha256_K (schedule 48 (words_of 16 block))))"

fun sha256_blocks :: "nat \<Rightarrow> sha_state \<Rightarrow> byte list \<Rightarrow> sha_state" where
  "sha256_blocks 0 st bs = st"
| "sha256_blocks (Suc n) st bs = sha256_blocks n (sha256_block st (take 64 bs)) (drop 64 bs)"

definition bytes_be :: "nat \<Rightarrow> nat \<Rightarrow> byte list" where
  "bytes_be k n = map (\<lambda>i. of_nat (n div 256 ^ i)) (rev [0..<k])"

definition sha256_pad :: "byte list \<Rightarrow> byte list" where
  "sha256_pad m =
     m @ [0x80] @ replicate ((119 - length m mod 64) mod 64) 0 @ bytes_be 8 (8 * length m)"

fun state_bytes :: "sha_state \<Rightarrow> byte list" where
  "state_bytes (a, b, c, d, e, f, g, h) = concat (map (\<lambda>x. bytes_be 4 (unat x)) [a, b, c, d, e, f, g, h])"

definition sha256 :: "byte list \<Rightarrow> byte list" where
  "sha256 m = (let p = sha256_pad m in state_bytes (sha256_blocks (length p div 64) sha256_H0 p))"

definition hmac_sha256 :: "byte list \<Rightarrow> byte list \<Rightarrow> byte list" where
  "hmac_sha256 key msg =
     (let k0 = (if length key > 64 then sha256 key else key);
          k = k0 @ replicate (64 - length k0) 0
      in sha256 (map (\<lambda>b. b XOR 0x5c) k @ sha256 (map (\<lambda>b. b XOR 0x36) k @ msg)))"

definition hex_char :: "nat \<Rightarrow> char" where
  "hex_char n = ''0123456789abcdef'' ! n"

definition hexdigest :: "byte list \<Rightarrow> string" where
  "hexdigest bs = concat (map (\<lambda>b. [hex_char (unat b div 16), hex_char (unat b mod 16)]) bs)"

definition encode_utf8 :: "string \<Rightarrow> byte list" where
  "encode_utf8 s = map of_char s"

text \<open>
  \<open>urllib.parse.urlencode\<close> of a dictionary with string keys: the pairs in insertion order,
  key and \<open>str\<close> of the value passed through \<open>quote_plus\<close> (letters, digits and \<open>_.-~\<close> are
  kept, a space becomes \<open>+\<close>, any other byte becomes \<open>%XX\<close> in upper-case hexadecimal),
  joined by \<open>=\<close> and \<open>&\<close>.
\<close>

definition always_safe :: "char \<Rightarrow> bool" where
  "always_safe c =
     (c \<in> set ''ABCDEFGHIJKLMNOPQRSTUVWXYZabcdefghijklmnopqrstuvwxyz0123456789_.-~'')"

definition quote_char :: "char \<Rightarrow> string" where
  "quote_char c =
     (if always_safe c then [c]
      else if c = CHR '' '' then ''+''
      else [CHR ''%'', ''0123456789ABCDEF'' ! (of_char c div 16), ''0123456789ABCDEF'' ! (of_char c mod 16)])"

definition quote_plus :: "string \<Rightarrow> string" where
  "quote_plus s = concat (map quote_char s)"

fun join :: "string \<Rightarrow> string list \<Rightarrow> string" where
  "join sep [] = []"
| "join sep [x] = x"
| "join sep (x # y # ys) = x @ sep @ join sep (y # ys)"

definition urlencode :: "'f pylib \<Rightarrow> 'f dict \<Rightarrow> string" where
  "urlencode L params =
     join ''&'' (map (\<lambda>(k, v). quote_plus k @ ''='' @ quote_plus (py_str L v)) params)"

section \<open>The transport client (\<open>bot/client.py\<close>)\<close>

record BinanceClient =
  api_key :: string
  api_secret :: string

definition BASE_URL :: string where
  "BASE_URL = ''https://testnet.binancefuture.com''"

text \<open>The constructor: a missing (\<open>None\<close>) or empty credential raises \<open>ValueError\<close>.\<close>

definition BinanceClient_init :: "string option \<Rightarrow> string option \<Rightarrow> 'f exn + BinanceClient" where
  "BinanceClient_init key secret =
     (case (key, secret) of
        (Some k, Some s) \<Rightarrow>
          if k = [] \<or> s = [] then Inl (ValueError ''API key and secret are required'')
          else Inr \<lparr>api_key = k, api_secret = s\<rparr>
      | _ \<Rightarrow> Inl (ValueError ''API key and secret are required''))"

definition generate_signature :: "'f pylib \<Rightarrow> BinanceClient \<Rightarrow> 'f dict \<Rightarrow> string" where
  "generate_signature L self params =
     (let query_string = urlencode L params
      in hexdigest (hmac_sha256 (encode_utf8 (api_secret self)) (encode_utf8 query_string)))"

subsection \<open>The network and the clock\<close>

text \<open>
  What the client hands to \<open>requests\<close>: the method, the URL, the parameters (in the query
  string for GET and DELETE, as form data for POST) and the session's headers. What comes
  back is a response, its status code with the JSON document of its body (\<open>None\<close> when the
  body is not JSON), or an exception of \<open>requests.exceptions\<close>. The classes that the
  handlers of \<open>_make_request\<close> tell apart are \<open>Timeout\<close> (with its subclasses
  \<open>ConnectTimeout\<close>, which is a \<open>ConnectionError\<close> too, and \<open>ReadTimeout\<close>),
  \<open>ConnectionError\<close> and the base class \<open>RequestException\<close>; each carries its \<open>str\<close>.

  The world outside is a record: the answer of the network to each request and the value
  that \<open>int(time.time() * 1000)\<close> returns. The calls made are kept in a trace, the list of
  requests in the order they were sent.
\<close>

datatype carrier = QueryString | FormData

record 'f request =
  req_method :: string
  req_url :: string
  req_params :: "'f dict"
  req_carrier :: carrier
  req_headers :: "(string \<times> string) list"

datatype requests_exception =
    ConnectTimeout string
  | ReadTimeout string
  | ConnectionError string
  | RequestException string

fun is_Timeout :: "requests_exception \<Rightarrow> bool" where
  "is_Timeout (ConnectTimeout m) = True"
| "is_Timeout (ReadTimeout m) = True"
| "is_Timeout (ConnectionError m) = False"
| "is_Timeout (RequestException m) = False"

fun is_ConnectionError :: "requests_exception \<Rightarrow> bool" where
  "is_ConnectionError (ConnectTimeout m) = True"
| "is_ConnectionError (ReadTimeout m) = False"
| "is_ConnectionError (ConnectionError m) = True"
| "is_ConnectionError (RequestException m) = False"

fun exception_str :: "requests_exception \<Rightarrow> string" where
  "exception_str (ConnectTimeout m) = m"
| "exception_str (ReadTimeout m) = m"
| "exception_str (ConnectionError m) = m"
| "exception_str (RequestException m) = m"

datatype 'f http_result =
    Raises requests_exception
  | Response int "'f pyval option"

record 'f world =
  http :: "'f request \<Rightarrow> 'f http_result"
  time_ms :: int

type_synonym 'f trace = "'f request list"

text \<open>The two headers that the constructor adds to the session; the default headers of
  \<open>requests\<close> are left out.\<close>

definition session_headers :: "BinanceClient \<Rightarrow> (string \<times> string) list" where
  "session_headers self =
     [(''X-MBX-APIKEY'', api_key self), (''Content-Type'', ''application/x-www-form-urlencoded'')]"

definition get_timestamp :: "'f world \<Rightarrow> int" where
  "get_timestamp W = time_ms W"

subsection \<open>\<open>_make_request\<close>\<close>

definition make_request ::
  "'f pylib \<Rightarrow> BinanceClient \<Rightarrow> 'f world \<Rightarrow> string \<Rightarrow> string \<Rightarrow> 'f dict option \<Rightarrow> bool \<Rightarrow>
   'f trace \<Rightarrow> ('f exn + 'f pyval) \<times> 'f trace" where
  "make_request L self W method endpoint params is_signed tr =
     (let url = BASE_URL @ endpoint;
          params0 = (case params of None \<Rightarrow> [] | Some p \<Rightarrow> p);
          params1 =
            (if is_signed then
               (let p = dict_set params0 ''timestamp'' (PInt (get_timestamp W))
                in dict_set p ''signature'' (PStr (generate_signature L self p)))
             else params0)
      in if method \<noteq> ''GET'' \<and> method \<noteq> ''POST'' \<and> method \<noteq> ''DELETE''
         then (Inl (ValueError (''Unsupported HTTP method: '' @ method)), tr)
         else
           (let req = \<lparr>req_method = method, req_url = url, req_params = params1,
                       req_carrier = (if method = ''POST'' then FormData else QueryString),
                       req_headers = session_headers self\<rparr>;
                tr' = tr @ [req]
            in case http W req of
                 Raises e \<Rightarrow>
                   if is_Timeout e
                   then (Inl (BinanceAPIError 0 (PStr ''TIMEOUT'') (PStr ''Request timed out'')), tr')
                   else if is_ConnectionError e
                   then (Inl (BinanceAPIError 0 (PStr ''CONNECTION_ERROR'') (PStr (exception_str e))), tr')
                   else (Inl (BinanceAPIError 0 (PStr ''REQUEST_ERROR'') (PStr (exception_str e))), tr')
               | Response status_code body \<Rightarrow>
                   (case body of
                      None \<Rightarrow>
                        (Inl (BinanceAPIError status_code (PStr ''INVALID_JSON'')
                               (PStr ''Invalid JSON response from server'')), tr')
                    | Some data \<Rightarrow>
                        if status_code \<noteq> 200 then
                          (case data of
                             PDict d \<Rightarrow>
                               (Inl (BinanceAPIError status_code
                                      (dict_get_default d ''code'' (PStr ''UNKNOWN''))
                                      (dict_get_default d ''msg'' (PStr ''Unknown error''))), tr')
                           | _ \<Rightarrow> (Inl (no_attribute data ''get''), tr'))
                        else (Inr data, tr'))))"

subsection \<open>The operations of the client\<close>

definition get_server_time ::
  "'f pylib \<Rightarrow> BinanceClient \<Rightarrow> 'f world \<Rightarrow> 'f trace \<Rightarrow> ('f exn + 'f pyval) \<times> 'f trace" where
  "get_server_time L self W tr = make_request L self W ''GET'' ''/fapi/v1/time'' None False tr"

definition get_exchange_info ::
  "'f pylib \<Rightarrow> BinanceClient \<Rightarrow> 'f world \<Rightarrow> 'f trace \<Rightarrow> ('f exn + 'f pyval) \<times> 'f trace" where
  "get_exchange_info L self W tr = make_request L self W ''GET'' ''/fapi/v1/exchangeInfo'' None False tr"

definition get_account_info ::
  "'f pylib \<Rightarrow> BinanceClient \<Rightarrow> 'f world \<Rightarrow> 'f trace \<Rightarrow> ('f exn + 'f pyval) \<times> 'f trace" where
  "get_account_info L self W tr = make_request L self W ''GET'' ''/fapi/v2/account'' None True tr"

definition get_symbol_price ::
  "'f pylib \<Rightarrow> BinanceClient \<Rightarrow> 'f world \<Rightarrow> 'f pyval \<Rightarrow> 'f trace \<Rightarrow> ('f exn + 'f pyval) \<times> 'f trace" where
  "get_symbol_price L self W symbol tr =
     make_request L self W ''GET'' ''/fapi/v1/ticker/price'' (Some [(''symbol'', symbol)]) False tr"

text \<open>Lines 157 to 171 of \<open>place_order\<close>: the parameter dictionary it builds, or the
  \<open>ValueError\<close> it raises.\<close>

definition place_order_params ::
  "'f pylib \<Rightarrow> 'f pyval \<Rightarrow> 'f pyval \<Rightarrow> 'f pyval \<Rightarrow> 'f pyval \<Rightarrow> 'f pyval \<Rightarrow> 'f pyval \<Rightarrow> 'f pyval \<Rightarrow>
   'f exn + 'f dict" where
  "place_order_params L symbol side order_type quantity price time_in_force reduce_only =
     (let params = [(''symbol'', symbol), (''side'', side), (''type'', order_type),
                    (''quantity'', quantity)];
          limit =
            (if order_type = PStr ''LIMIT'' then
               (if price = PNone then Inl (ValueError ''Price required for LIMIT orders'')
                else Inr (dict_set (dict_set params ''price'' price) ''timeInForce''
                            (if truthy L time_in_force then time_in_force else PStr ''GTC'')))
             else Inr params)
      in case limit of
           Inl e \<Rightarrow> Inl e
         | Inr params \<Rightarrow>
             Inr (if truthy L reduce_only then dict_set params ''reduceOnly'' (PStr ''true'')
                  else params))"

definition BinanceClient_place_order ::
  "'f pylib \<Rightarrow> BinanceClient \<Rightarrow> 'f world \<Rightarrow> 'f pyval \<Rightarrow> 'f pyval \<Rightarrow> 'f pyval \<Rightarrow> 'f pyval \<Rightarrow>
   'f pyval \<Rightarrow> 'f pyval \<Rightarrow> 'f pyval \<Rightarrow> 'f trace \<Rightarrow> ('f exn + 'f pyval) \<times> 'f trace" where
  "BinanceClient_place_order L self W symbol side order_type quantity price time_in_force
      reduce_only tr =
     (case place_order_params L symbol side order_type quantity price time_in_force reduce_only of
        Inl e \<Rightarrow> (Inl e, tr)
      | Inr params \<Rightarrow> make_request L self W ''POST'' ''/fapi/v1/order'' (Some params) True tr)"

definition BinanceClient_cancel_order ::
  "'f pylib \<Rightarrow> BinanceClient \<Rightarrow> 'f world \<Rightarrow> 'f pyval \<Rightarrow> 'f pyval \<Rightarrow> 'f trace \<Rightarrow>
   ('f exn + 'f pyval) \<times> 'f trace" where
  "BinanceClient_cancel_order L self W symbol order_id tr =
     make_request L self W ''DELETE'' ''/fapi/v1/order''
       (Some [(''symbol'', symbol), (''orderId'', order_id)]) True tr"

definition BinanceClient_get_open_orders ::
  "'f pylib \<Rightarrow> BinanceClient \<Rightarrow> 'f world \<Rightarrow> 'f pyval \<Rightarrow> 'f trace \<Rightarrow> ('f exn + 'f pyval) \<times> 'f trace" where
  "BinanceClient_get_open_orders L self W symbol tr =
     (let params = (if truthy L symbol then dict_set [] ''symbol'' symbol else [])
      in make_request L self W ''GET'' ''/fapi/v1/openOrders'' (Some params) True tr)"

definition test_connectivity ::
  "'f pylib \<Rightarrow> BinanceClient \<Rightarrow> 'f world \<Rightarrow> 'f trace \<Rightarrow> bool \<times> 'f trace" where
  "test_connectivity L self W tr =
     (case get_server_time L self W tr of
        (Inl e, tr') \<Rightarrow> (False, tr')
      | (Inr v, tr') \<Rightarrow> (True, tr'))"

section \<open>The order manager (\<open>bot/orders.py\<close>)\<close>

record OrderManager =
  client :: BinanceClient

text \<open>\<open>str(e)\<close> of an exception, for the message of an \<open>UNKNOWN_ERROR\<close> result.\<close>

fun exn_str :: "'f pylib \<Rightarrow> 'f exn \<Rightarrow> string" where
  "exn_str L (ValidationError m) = m"
| "exn_str L (BinanceAPIError status_code error_code message) =
     ''API Error '' @ py_str L error_code @ '': '' @ py_str L message"
| "exn_str L (ValueError m) = m"
| "exn_str L (AttributeError m) = m"
| "exn_str L InvalidOperation = ''[<class '' @ [CHR 0x27] @ ''decimal.InvalidOperation'' @ [CHR 0x27] @ ''>]''"

definition format_order_response :: "'f pyval \<Rightarrow> 'f exn + 'f dict" where
  "format_order_response response =
     (case response of
        PDict r \<Rightarrow>
          Inr [(''order_id'', dict_get r ''orderId''),
               (''symbol'', dict_get r ''symbol''),
               (''side'', dict_get r ''side''),
               (''type'', dict_get r ''type''),
               (''status'', dict_get r ''status''),
               (''quantity'', dict_get r ''origQty''),
               (''executed_qty'', dict_get r ''executedQty''),
               (''price'', dict_get r ''price''),
               (''avg_price'', dict_get r ''avgPrice''),
               (''time_in_force'', dict_get r ''timeInForce''),
               (''reduce_only'', dict_get r ''reduceOnly''),
               (''timestamp'', dict_get r ''updateTime''),
               (''raw_response'', response)]
      | _ \<Rightarrow> Inl (no_attribute response ''get''))"

text \<open>
  \<open>place_order\<close>: the first \<open>try\<close> has the single handler \<open>except ValidationError\<close>, so an
  exception of another class raised by a validator leaves the method; the second \<open>try\<close> handles
  \<open>BinanceAPIError\<close> and then \<open>Exception\<close>. The client is called with the five validated
  fields only, so \<open>time_in_force\<close> and \<open>reduce_only\<close> take their defaults \<open>None\<close> and \<open>False\<close>.
\<close>

definition OrderManager_place_order ::
  "'f pylib \<Rightarrow> OrderManager \<Rightarrow> 'f world \<Rightarrow> 'f pyval \<Rightarrow> 'f pyval \<Rightarrow> 'f pyval \<Rightarrow> 'f pyval \<Rightarrow>
   'f pyval \<Rightarrow> 'f trace \<Rightarrow> ('f exn + 'f dict) \<times> 'f trace" where
  "OrderManager_place_order L self W symbol side order_type quantity price tr =
     (case validate_order_params L symbol side order_type quantity price of
        Inl e \<Rightarrow>
          (case e of
             ValidationError m \<Rightarrow>
               (Inr [(''success'', PBool False), (''error'', PStr m),
                     (''error_type'', PStr ''VALIDATION_ERROR'')], tr)
           | _ \<Rightarrow> (Inl e, tr))
      | Inr validated \<Rightarrow>
          (case BinanceClient_place_order L (client self) W
                  (PStr (v_symbol validated)) (PStr (v_side validated))
                  (PStr (v_order_type validated)) (PFloat (v_quantity validated))
                  (case v_price validated of None \<Rightarrow> PNone | Some p \<Rightarrow> PFloat p)
                  PNone (PBool False) tr of
             (Inl e, tr') \<Rightarrow>
               (case e of
                  BinanceAPIError status_code error_code message \<Rightarrow>
                    (Inr [(''success'', PBool False), (''error'', message),
                          (''error_code'', error_code), (''error_type'', PStr ''API_ERROR'')], tr')
                | _ \<Rightarrow>
                    (Inr [(''success'', PBool False), (''error'', PStr (exn_str L e)),
                          (''error_type'', PStr ''UNKNOWN_ERROR'')], tr'))
           | (Inr response, tr') \<Rightarrow>
               (case format_order_response response of
                  Inl e \<Rightarrow>
                    (Inr [(''success'', PBool False), (''error'', PStr (exn_str L e)),
                          (''error_type'', PStr ''UNKNOWN_ERROR'')], tr')
                | Inr result \<Rightarrow> (Inr (dict_set result ''success'' (PBool True)), tr'))))"

text \<open>\<open>cancel_order\<close> and \<open>get_open_orders\<close> have the single handler \<open>except BinanceAPIError\<close>.\<close>

definition OrderManager_cancel_order ::
  "'f pylib \<Rightarrow> OrderManager \<Rightarrow> 'f world \<Rightarrow> 'f pyval \<Rightarrow> 'f pyval \<Rightarrow> 'f trace \<Rightarrow>
   ('f exn + 'f dict) \<times> 'f trace" where
  "OrderManager_cancel_order L self W symbol order_id tr =
     (case BinanceClient_cancel_order L (client self) W symbol order_id tr of
        (Inr response, tr') \<Rightarrow> (Inr [(''success'', PBool True), (''response'', response)], tr')
      | (Inl e, tr') \<Rightarrow>
          (case e of
             BinanceAPIError status_code error_code message \<Rightarrow>
               (Inr [(''success'', PBool False), (''error'', message)], tr')
           | _ \<Rightarrow> (Inl e, tr')))"

definition OrderManager_get_open_orders ::
  "'f pylib \<Rightarrow> OrderManager \<Rightarrow> 'f world \<Rightarrow> 'f pyval \<Rightarrow> 'f trace \<Rightarrow> ('f exn + 'f dict) \<times> 'f trace" where
  "OrderManager_get_open_orders L self W symbol tr =
     (case BinanceClient_get_open_orders L (client self) W symbol tr of
        (Inr orders, tr') \<Rightarrow> (Inr [(''success'', PBool True), (''orders'', orders)], tr')
      | (Inl e, tr') \<Rightarrow>
          (case e of
             BinanceAPIError status_code error_code message \<Rightarrow>
               (Inr [(''success'', PBool False), (''error'', message)], tr')
           | _ \<Rightarrow> (Inl e, tr')))"

text \<open>\<open>get_order_summary\<close>: the list \<open>lines\<close> as the method builds it, then joined by newlines.\<close>

definition summary_lines :: "'f pylib \<Rightarrow> 'f dict \<Rightarrow> string list" where
  "summary_lines L order_result =
     (let lines0 =
            [replicate 50 CHR ''='',
             ''ORDER EXECUTED SUCCESSFULLY'',
             replicate 50 CHR ''='',
             ''Order ID:     '' @ py_str L (dict_get order_result ''order_id''),
             ''Symbol:       '' @ py_str L (dict_get order_result ''symbol''),
             ''Side:         '' @ py_str L (dict_get order_result ''side''),
             ''Type:         '' @ py_str L (dict_get order_result ''type''),
             ''Status:       '' @ py_str L (dict_get order_result ''status''),
             ''Quantity:     '' @ py_str L (dict_get order_result ''quantity''),
             ''Executed:     '' @ py_str L (dict_get order_result ''executed_qty'')];
          lines1 =
            (if truthy L (dict_get order_result ''price'') \<and> dict_get order_result ''price'' \<noteq> PStr ''0''
             then lines0 @ [''Price:        '' @ py_str L (dict_get order_result ''price'')]
             else lines0);
          lines2 =
            (if truthy L (dict_get order_result ''avg_price'')
                \<and> dict_get order_result ''avg_price'' \<noteq> PStr ''0''
             then lines1 @ [''Avg Price:    '' @ py_str L (dict_get order_result ''avg_price'')]
             else lines1)
      in lines2 @ [replicate 50 CHR ''=''])"

definition get_order_summary :: "'f pylib \<Rightarrow> 'f dict \<Rightarrow> string" where
  "get_order_summary L order_result =
     (if \<not> truthy L (dict_get order_result ''success'')
      then ''Order Failed: '' @ py_str L (dict_get order_result ''error'')
      else join [CHR 0x0A] (summary_lines L order_result))"

section \<open>Notions used in the statements\<close>

text \<open>The parameters of a signed request as the specification describes them: the
  parameters \<open>p\<close>, then \<open>timestamp\<close>, then \<open>signature\<close>, the signature of \<open>p\<close> with the
  timestamp.\<close>

definition signed_params :: "'f pylib \<Rightarrow> BinanceClient \<Rightarrow> 'f world \<Rightarrow> 'f dict \<Rightarrow> 'f dict" where
  "signed_params L self W p =
     p @ [(''timestamp'', PInt (time_ms W)),
          (''signature'', PStr (generate_signature L self (p @ [(''timestamp'', PInt (time_ms W))])))]"

text \<open>The parameters that the order manager passes on for a validated order: the four
  required fields and, when there is a price, the price and the default \<open>GTC\<close>.\<close>

definition validated_params :: "'f validated \<Rightarrow> 'f dict" where
  "validated_params v =
     [(''symbol'', PStr (v_symbol v)), (''side'', PStr (v_side v)),
      (''type'', PStr (v_order_type v)), (''quantity'', PFloat (v_quantity v))]
     @ (case v_price v of
          None \<Rightarrow> []
        | Some p \<Rightarrow> [(''price'', PFloat p), (''timeInForce'', PStr ''GTC'')])"

text \<open>The ten lines with which every summary of a successful order begins.\<close>

definition summary_head :: "'f pylib \<Rightarrow> 'f dict \<Rightarrow> string list" where
  "summary_head L order_result =
     [replicate 50 CHR ''='',
      ''ORDER EXECUTED SUCCESSFULLY'',
      replicate 50 CHR ''='',
      ''Order ID:     '' @ py_str L (dict_get order_result ''order_id''),
      ''Symbol:       '' @ py_str L (dict_get order_result ''symbol''),
      ''Side:         '' @ py_str L (dict_get order_result ''side''),
      ''Type:         '' @ py_str L (dict_get order_result ''type''),
      ''Status:       '' @ py_str L (dict_get order_result ''status''),
      ''Quantity:     '' @ py_str L (dict_get order_result ''quantity''),
      ''Executed:     '' @ py_str L (dict_get order_result ''executed_qty'')]"

section \<open>Concrete inputs\<close>

text \<open>
  A stand-in for the float operations, used where a statement is instantiated: a float is
  kept as the text that \<open>str\<close> gives for it.
\<close>

definition decimal_text :: "decimal \<Rightarrow> string" where
  "decimal_text d =
     (case d of
        DFinite neg c e \<Rightarrow> (if neg then ''-'' else []) @ str_nat c @ ''e'' @ str_int e
      | DInfinity neg \<Rightarrow> (if neg then ''-inf'' else ''inf'')
      | DNaN neg \<Rightarrow> ''nan'')"

definition text_floats :: "string pylib" where
  "text_floats =
     \<lparr>float_str = (\<lambda>x. x),
      float_truthy = (\<lambda>x. x \<noteq> ''0.0'' \<and> x \<noteq> ''-0.0''),
      float_of_decimal = decimal_text,
      container_str = (\<lambda>v. ''[...]'')\<rparr>"

definition test_client :: BinanceClient where
  "test_client = \<lparr>api_key = ''key'', api_secret = ''secret''\<rparr>"

definition test_manager :: OrderManager where
  "test_manager = \<lparr>client = test_client\<rparr>"

text \<open>Worlds: the exchange accepts the order; it rejects it with HTTP 400 and an error
  document; the connection times out; a gateway answers 502 with a JSON list.\<close>

definition order_response :: "string pyval" where
  "order_response =
     PDict [(''orderId'', PInt 7), (''symbol'', PStr ''BTCUSDT''), (''side'', PStr ''BUY''),
            (''type'', PStr ''MARKET''), (''status'', PStr ''NEW''), (''origQty'', PStr ''0.001''),
            (''executedQty'', PStr ''0''), (''price'', PStr ''0''), (''avgPrice'', PStr ''0''),
            (''timeInForce'', PStr ''GTC''), (''reduceOnly'', PBool False),
            (''updateTime'', PInt 1700000000500)]"

definition world_ok :: "string world" where
  "world_ok = \<lparr>http = (\<lambda>req. Response 200 (Some order_response)), time_ms = 1700000000000\<rparr>"

definition world_precision :: "string world" where
  "world_precision =
     \<lparr>http = (\<lambda>req. Response 400
                (Some (PDict [(''code'', PInt (- 1111)),
                              (''msg'', PStr ''Precision is over the maximum'')]))),
      time_ms = 1700000000000\<rparr>"

definition world_timeout :: "string world" where
  "world_timeout = \<lparr>http = (\<lambda>req. Raises (ConnectTimeout ''timed out'')), time_ms = 1700000000000\<rparr>"

definition world_bad_gateway :: "string world" where
  "world_bad_gateway = \<lparr>http = (\<lambda>req. Response 502 (Some (PList []))), time_ms = 1700000000000\<rparr>"

text \<open>The result that the order manager makes of the accepted market order.\<close>

definition market_result :: "string dict" where
  "market_result =
     (case format_order_response order_response of
        Inl e \<Rightarrow> []
      | Inr res \<Rightarrow> dict_set res ''success'' (PBool True))"

section \<open>Facts about the validators\<close>

lemma decimal_of_string_NaN: "decimal_of_string ''NaN'' = Some (DNaN False)"
  by code_simp

lemma decimal_of_string_nan: "decimal_of_string ''nan'' = Some (DNaN False)"
  by code_simp

text \<open>Every outcome of \<open>validate_quantity\<close>, by the shape of \<open>Decimal(str(quantity))\<close>.\<close>

lemma validate_quantity_cases:
  "validate_quantity L q =
     (case q of
        PNone \<Rightarrow> Inl (ValidationError ''Quantity is required'')
      | _ \<Rightarrow>
        (case decimal_of_string (py_str L q) of
           None \<Rightarrow> Inl (ValidationError (''Invalid quantity: '' @ py_str L q))
         | Some (DNaN s) \<Rightarrow> Inl InvalidOperation
         | Some (DInfinity s) \<Rightarrow>
             if s then Inl (ValidationError ''Quantity must be greater than 0'')
             else Inr (float_of_decimal L (DInfinity s))
         | Some (DFinite s c e) \<Rightarrow>
             if c = 0 \<or> s then Inl (ValidationError ''Quantity must be greater than 0'')
             else Inr (float_of_decimal L (DFinite s c e))))"
proof (cases "decimal_of_string (py_str L q)")
  case None
  then show ?thesis
    by (cases q) (simp_all add: validate_quantity_def Decimal_def)
next
  case (Some d)
  then show ?thesis
    by (cases q; cases d) (simp_all add: validate_quantity_def Decimal_def decimal_le_zero_def)
qed

text \<open>
  Claim C5. \<open>validate_quantity\<close> is said to end in one of two ways for every input: a
  \<open>ValidationError\<close> when the quantity is \<open>None\<close>, not a number or not positive, and the
  quantity as a float otherwise. The code has a third outcome. The text \<open>NaN\<close> (and a float
  whose \<open>str\<close> is \<open>nan\<close>, which is what \<open>--quantity nan\<close> gives on the command line) passes
  the \<open>Decimal\<close> constructor inside the \<open>try\<close>; the comparison \<open>qty <= 0\<close> after the \<open>try\<close>
  then raises \<open>decimal.InvalidOperation\<close>, which is not a \<open>ValidationError\<close>.
\<close>

theorem validate_quantity_nan_raises_InvalidOperation:
  "validate_quantity L (PStr ''NaN'') = Inl InvalidOperation
   \<and> (\<forall>x. float_str L x = ''nan'' \<longrightarrow> validate_quantity L (PFloat x) = Inl InvalidOperation)"
  by (simp add: validate_quantity_def Decimal_def decimal_of_string_NaN decimal_of_string_nan
        decimal_le_zero_def)

theorem validate_quantity_nan_witness:
  "validate_quantity text_floats (PStr ''NaN'') = Inl InvalidOperation
   \<and> float_str text_floats ''nan'' = ''nan''
   \<and> validate_quantity text_floats (PFloat ''nan'') = Inl InvalidOperation"
  using validate_quantity_nan_raises_InvalidOperation [of text_floats]
  by (simp add: text_floats_def)

text \<open>The same exception leaves \<open>OrderManager.place_order\<close>, whose first \<open>try\<close> handles
  \<open>ValidationError\<close> only.\<close>

lemma place_order_nan_quantity_escapes:
  "OrderManager_place_order text_floats test_manager world_ok (PStr ''BTCUSDT'') (PStr ''BUY'')
     (PStr ''MARKET'') (PStr ''NaN'') PNone [] = (Inl InvalidOperation, [])"
  by code_simp

lemma dict_set_fresh: "k \<notin> fst ` set d \<Longrightarrow> dict_set d k v = d @ [(k, v)]"
  by (induction d) auto

lemma map_of_dict_set_same: "map_of (dict_set d k v) k = Some v"
  by (induction d) auto

lemma map_of_dict_set_other: "k' \<noteq> k \<Longrightarrow> map_of (dict_set d k v) k' = map_of d k'"
  by (induction d) auto

lemma keys_dict_set: "fst ` set (dict_set d k v) = insert k (fst ` set d)"
  by (induction d) (force split: if_splits)+











section \<open>Facts about the transport client\<close>

lemma place_order_params_unfold:
  "place_order_params L symbol side order_type quantity price time_in_force reduce_only =
     (if order_type = PStr ''LIMIT'' \<and> price = PNone
      then Inl (ValueError ''Price required for LIMIT orders'')
      else Inr ([(''symbol'', symbol), (''side'', side), (''type'', order_type),
                 (''quantity'', quantity)]
                @ (if order_type = PStr ''LIMIT''
                   then [(''price'', price),
                         (''timeInForce'',
                          if truthy L time_in_force then time_in_force else PStr ''GTC'')]
                   else [])
                @ (if truthy L reduce_only then [(''reduceOnly'', PStr ''true'')] else [])))"
  by (simp add: place_order_params_def)

lemma place_order_params_keys:
  assumes "place_order_params L symbol side order_type quantity price time_in_force reduce_only
             = Inr p"
  shows "''timestamp'' \<notin> fst ` set p \<and> ''signature'' \<notin> fst ` set p"
  using assms by (auto simp: place_order_params_unfold split: if_splits)

text \<open>What \<open>_make_request\<close> sends: one request, unless the method is not supported.\<close>

lemma make_request_sends:
  assumes "meth = ''GET'' \<or> meth = ''POST'' \<or> meth = ''DELETE''"
  shows "map req_params (snd (make_request L self W meth endpoint params sg tr)) =
         map req_params tr @
           [if sg
            then dict_set (dict_set (case params of None \<Rightarrow> [] | Some p \<Rightarrow> p) ''timestamp''
                             (PInt (time_ms W))) ''signature''
                   (PStr (generate_signature L self
                      (dict_set (case params of None \<Rightarrow> [] | Some p \<Rightarrow> p) ''timestamp''
                         (PInt (time_ms W)))))
            else (case params of None \<Rightarrow> [] | Some p \<Rightarrow> p)]"
proof -
  define p0 where "p0 = (case params of None \<Rightarrow> [] | Some p \<Rightarrow> p)"
  define p1 where "p1 = (if sg
            then dict_set (dict_set p0 ''timestamp'' (PInt (time_ms W))) ''signature''
                   (PStr (generate_signature L self (dict_set p0 ''timestamp'' (PInt (time_ms W)))))
            else p0)"
  define req where "req = \<lparr>req_method = meth, req_url = BASE_URL @ endpoint, req_params = p1,
                       req_carrier = (if meth = ''POST'' then FormData else QueryString),
                       req_headers = session_headers self\<rparr>"
  have m: "\<not> (meth \<noteq> ''GET'' \<and> meth \<noteq> ''POST'' \<and> meth \<noteq> ''DELETE'')"
    using assms by blast
  have "snd (make_request L self W meth endpoint params sg tr) = tr @ [req]"
    unfolding make_request_def get_timestamp_def Let_def p0_def [symmetric] p1_def [symmetric]
      req_def [symmetric] if_not_P [OF m]
    by (simp split: http_result.split option.split pyval.split)
  then show ?thesis by (simp add: req_def p1_def p0_def)
qed

lemma make_request_signed_fresh:
  assumes "meth = ''GET'' \<or> meth = ''POST'' \<or> meth = ''DELETE''"
      and "''timestamp'' \<notin> fst ` set p" and "''signature'' \<notin> fst ` set p"
  shows "map req_params (snd (make_request L self W meth endpoint (Some p) True tr)) =
         map req_params tr @ [signed_params L self W p]"
proof -
  have 1: "dict_set p ''timestamp'' (PInt (time_ms W)) = p @ [(''timestamp'', PInt (time_ms W))]"
    using assms(2) by (rule dict_set_fresh)
  have "''signature'' \<notin> fst ` set (p @ [(''timestamp'', PInt (time_ms W))])"
    using assms(3) by simp
  then have 2: "dict_set (p @ [(''timestamp'', PInt (time_ms W))]) ''signature'' v =
                (p @ [(''timestamp'', PInt (time_ms W))]) @ [(''signature'', v)]" for v
    by (rule dict_set_fresh)
  show ?thesis
    by (simp add: make_request_sends [OF assms(1)] 1 2 signed_params_def)
qed

text \<open>
  Claim C3. \<open>place_order\<close> of the client raises \<open>ValueError\<close>, before anything is sent, when
  the order type is \<open>LIMIT\<close> and the price is \<open>None\<close>. Otherwise the dictionary it builds
  holds, in this order, \<open>symbol\<close>, \<open>side\<close>, \<open>type\<close>, \<open>quantity\<close>, then \<open>price\<close> and
  \<open>timeInForce\<close> exactly when the type is \<open>LIMIT\<close> (\<open>timeInForce\<close> being the argument, or
  \<open>GTC\<close> when the argument is empty), then \<open>reduceOnly\<close> with the string \<open>true\<close> exactly when
  \<open>reduce_only\<close> holds (as Python's truth value of the argument).
\<close>

theorem place_order_builds_params_in_order:
  "place_order_params L symbol side order_type quantity price time_in_force reduce_only =
     (if order_type = PStr ''LIMIT'' \<and> price = PNone
      then Inl (ValueError ''Price required for LIMIT orders'')
      else Inr ([(''symbol'', symbol), (''side'', side), (''type'', order_type),
                 (''quantity'', quantity)]
                @ (if order_type = PStr ''LIMIT''
                   then [(''price'', price),
                         (''timeInForce'',
                          if truthy L time_in_force then time_in_force else PStr ''GTC'')]
                   else [])
                @ (if truthy L reduce_only then [(''reduceOnly'', PStr ''true'')] else [])))
   \<and> (order_type = PStr ''LIMIT'' \<and> price = PNone \<longrightarrow>
        BinanceClient_place_order L self W symbol side order_type quantity price time_in_force
          reduce_only tr = (Inl (ValueError ''Price required for LIMIT orders''), tr))"
  by (simp add: place_order_params_unfold BinanceClient_place_order_def)

theorem place_order_builds_params_witness:
  "place_order_params text_floats (PStr ''BTCUSDT'') (PStr ''SELL'') (PStr ''LIMIT'')
      (PFloat ''0.001'') (PFloat ''50000.0'') PNone (PBool True) =
     Inr [(''symbol'', PStr ''BTCUSDT''), (''side'', PStr ''SELL''), (''type'', PStr ''LIMIT''),
          (''quantity'', PFloat ''0.001''), (''price'', PFloat ''50000.0''),
          (''timeInForce'', PStr ''GTC''), (''reduceOnly'', PStr ''true'')]
   \<and> BinanceClient_place_order text_floats test_client world_ok (PStr ''BTCUSDT'') (PStr ''SELL'')
        (PStr ''LIMIT'') (PFloat ''0.001'') PNone PNone (PBool False) [] =
       (Inl (ValueError ''Price required for LIMIT orders''), [])"
  using place_order_builds_params_in_order [of text_floats "PStr ''BTCUSDT''" "PStr ''SELL''"
          "PStr ''LIMIT''" "PFloat ''0.001''" "PFloat ''50000.0''" PNone "PBool True"]
        place_order_builds_params_in_order [of text_floats "PStr ''BTCUSDT''" "PStr ''SELL''"
          "PStr ''LIMIT''" "PFloat ''0.001''" PNone PNone "PBool False" test_client world_ok "[]"]
  by simp

text \<open>
  Claim C1. A signed request carries the parameters it was given, then \<open>timestamp\<close> with the
  current time in milliseconds, then \<open>signature\<close>, which is the signature of the parameters
  with the timestamp and without the signature entry. This holds for \<open>_make_request\<close> on any
  parameters that have neither key yet, and so for each of the four signed operations of the
  client: account information, order placement, cancellation and open orders.
\<close>

theorem signed_request_timestamp_then_signature:
  "((meth = ''GET'' \<or> meth = ''POST'' \<or> meth = ''DELETE'')
      \<and> ''timestamp'' \<notin> fst ` set p \<and> ''signature'' \<notin> fst ` set p \<longrightarrow>
      map req_params (snd (make_request L self W meth endpoint (Some p) True tr)) =
      map req_params tr @ [signed_params L self W p])
   \<and> map req_params (snd (get_account_info L self W tr)) =
       map req_params tr @ [signed_params L self W []]
   \<and> (place_order_params L symbol side order_type quantity price time_in_force reduce_only
         = Inr p' \<longrightarrow>
       map req_params (snd (BinanceClient_place_order L self W symbol side order_type quantity
                              price time_in_force reduce_only tr)) =
       map req_params tr @ [signed_params L self W p'])
   \<and> map req_params (snd (BinanceClient_cancel_order L self W symbol order_id tr)) =
       map req_params tr @ [signed_params L self W [(''symbol'', symbol), (''orderId'', order_id)]]
   \<and> map req_params (snd (BinanceClient_get_open_orders L self W symbol tr)) =
       map req_params tr @
         [signed_params L self W (if truthy L symbol then [(''symbol'', symbol)] else [])]"
proof (intro conjI impI)
  assume "(meth = ''GET'' \<or> meth = ''POST'' \<or> meth = ''DELETE'')
      \<and> ''timestamp'' \<notin> fst ` set p \<and> ''signature'' \<notin> fst ` set p"
  then show "map req_params (snd (make_request L self W meth endpoint (Some p) True tr)) =
      map req_params tr @ [signed_params L self W p]"
    by (simp add: make_request_signed_fresh)
next
  show "map req_params (snd (get_account_info L self W tr)) =
       map req_params tr @ [signed_params L self W []]"
    by (simp add: get_account_info_def make_request_sends signed_params_def)
next
  assume a: "place_order_params L symbol side order_type quantity price time_in_force reduce_only
         = Inr p'"
  from place_order_params_keys [OF a]
  show "map req_params (snd (BinanceClient_place_order L self W symbol side order_type quantity
                              price time_in_force reduce_only tr)) =
       map req_params tr @ [signed_params L self W p']"
    by (simp add: BinanceClient_place_order_def a make_request_signed_fresh)
next
  show "map req_params (snd (BinanceClient_cancel_order L self W symbol order_id tr)) =
       map req_params tr @ [signed_params L self W [(''symbol'', symbol), (''orderId'', order_id)]]"
    by (simp add: BinanceClient_cancel_order_def make_request_signed_fresh)
next
  show "map req_params (snd (BinanceClient_get_open_orders L self W symbol tr)) =
       map req_params tr @
         [signed_params L self W (if truthy L symbol then [(''symbol'', symbol)] else [])]"
    by (simp add: BinanceClient_get_open_orders_def make_request_signed_fresh)
qed

theorem signed_request_witness:
  "map req_params (snd (make_request text_floats test_client world_ok ''DELETE'' ''/fapi/v1/order''
       (Some [(''symbol'', PStr ''BTCUSDT''), (''orderId'', PInt 7)]) True [])) =
     [[(''symbol'', PStr ''BTCUSDT''), (''orderId'', PInt 7),
       (''timestamp'', PInt 1700000000000),
       (''signature'', PStr (generate_signature text_floats test_client
          [(''symbol'', PStr ''BTCUSDT''), (''orderId'', PInt 7),
           (''timestamp'', PInt 1700000000000)]))]]
   \<and> map req_params (snd (BinanceClient_place_order text_floats test_client world_ok
         (PStr ''BTCUSDT'') (PStr ''BUY'') (PStr ''MARKET'') (PFloat ''0.001'') PNone PNone
         (PBool False) [])) =
     [[(''symbol'', PStr ''BTCUSDT''), (''side'', PStr ''BUY''), (''type'', PStr ''MARKET''),
       (''quantity'', PFloat ''0.001''), (''timestamp'', PInt 1700000000000),
       (''signature'', PStr (generate_signature text_floats test_client
          [(''symbol'', PStr ''BTCUSDT''), (''side'', PStr ''BUY''), (''type'', PStr ''MARKET''),
           (''quantity'', PFloat ''0.001''), (''timestamp'', PInt 1700000000000)]))]]"
  using signed_request_timestamp_then_signature
          [where meth = "''DELETE''" and endpoint = "''/fapi/v1/order''"
             and p = "[(''symbol'', PStr ''BTCUSDT''), (''orderId'', PInt 7)]"
             and L = text_floats and self = test_client and W = world_ok and tr = "[]"
             and symbol = "PStr ''BTCUSDT''" and side = "PStr ''BUY''"
             and order_type = "PStr ''MARKET''" and quantity = "PFloat ''0.001''"
             and price = PNone and time_in_force = PNone and reduce_only = "PBool False"
             and p' = "[(''symbol'', PStr ''BTCUSDT''), (''side'', PStr ''BUY''),
                        (''type'', PStr ''MARKET''), (''quantity'', PFloat ''0.001'')]"]
  by (simp add: place_order_params_unfold signed_params_def world_ok_def)

lemma make_request_raises:
  assumes "meth = ''GET'' \<or> meth = ''POST'' \<or> meth = ''DELETE''"
      and "\<And>req. http W req = Raises e"
  shows "fst (make_request L self W meth endpoint params sg tr) =
         Inl (BinanceAPIError 0
                (PStr (if is_Timeout e then ''TIMEOUT''
                       else if is_ConnectionError e then ''CONNECTION_ERROR''
                       else ''REQUEST_ERROR''))
                (PStr (if is_Timeout e then ''Request timed out'' else exception_str e)))"
proof -
  have m: "\<not> (meth \<noteq> ''GET'' \<and> meth \<noteq> ''POST'' \<and> meth \<noteq> ''DELETE'')"
    using assms(1) by blast
  show ?thesis
    unfolding make_request_def Let_def if_not_P [OF m] assms(2)
    by simp
qed

lemma make_request_error_document:
  assumes "meth = ''GET'' \<or> meth = ''POST'' \<or> meth = ''DELETE''"
      and "\<And>req. http W req = Response status (Some (PDict d))"
      and "status \<noteq> 200"
  shows "fst (make_request L self W meth endpoint params sg tr) =
         Inl (BinanceAPIError status (dict_get_default d ''code'' (PStr ''UNKNOWN''))
                (dict_get_default d ''msg'' (PStr ''Unknown error'')))"
proof -
  have m: "\<not> (meth \<noteq> ''GET'' \<and> meth \<noteq> ''POST'' \<and> meth \<noteq> ''DELETE'')"
    using assms(1) by blast
  show ?thesis
    unfolding make_request_def Let_def if_not_P [OF m] assms(2)
    using assms(3) by simp
qed

lemma make_request_error_not_object:
  assumes "meth = ''GET'' \<or> meth = ''POST'' \<or> meth = ''DELETE''"
      and "\<And>req. http W req = Response status (Some (PList xs))"
      and "status \<noteq> 200"
  shows "fst (make_request L self W meth endpoint params sg tr) =
         Inl (no_attribute (PList xs) ''get'')"
proof -
  have m: "\<not> (meth \<noteq> ''GET'' \<and> meth \<noteq> ''POST'' \<and> meth \<noteq> ''DELETE'')"
    using assms(1) by blast
  show ?thesis
    unfolding make_request_def Let_def if_not_P [OF m] assms(2)
    using assms(3) by simp
qed

section \<open>Facts about validated orders\<close>

lemma validate_order_type_Inr:
  assumes "validate_order_type L x = Inr ot"
  shows "ot = ''MARKET'' \<or> ot = ''LIMIT''"
  using assms
  by (cases x) (auto simp: validate_order_type_def VALID_ORDER_TYPES_def Let_def no_attribute_def
                     split: if_splits)

lemma validate_price_Inr:
  assumes "validate_price L price ot = Inr r"
  shows "(ot = ''LIMIT'') = (r \<noteq> None)"
proof (cases "ot = ''LIMIT''")
  case False
  with assms show ?thesis by (simp add: validate_price_def)
next
  case True
  with assms have "r \<noteq> None"
    by (cases price) (auto simp: validate_price_def split: sum.splits if_splits)
  with True show ?thesis by simp
qed

lemma validate_order_params_Inr:
  assumes "validate_order_params L symbol side order_type quantity price = Inr v"
  shows "(v_order_type v = ''MARKET'' \<or> v_order_type v = ''LIMIT'')
         \<and> ((v_order_type v = ''LIMIT'') = (v_price v \<noteq> None))"
proof -
  from assms obtain sy si ot q p where
      ot: "validate_order_type L order_type = Inr ot"
    and p: "validate_price L price ot = Inr p"
    and v: "v = \<lparr>v_symbol = sy, v_side = si, v_order_type = ot, v_quantity = q, v_price = p\<rparr>"
    by (auto simp: validate_order_params_def split: sum.splits)
  from validate_order_type_Inr [OF ot] validate_price_Inr [OF p] v show ?thesis by simp
qed

lemma place_order_params_validated:
  assumes "validate_order_params L symbol side order_type quantity price = Inr v"
  shows "place_order_params L (PStr (v_symbol v)) (PStr (v_side v)) (PStr (v_order_type v))
           (PFloat (v_quantity v)) (case v_price v of None \<Rightarrow> PNone | Some p \<Rightarrow> PFloat p)
           PNone (PBool False) = Inr (validated_params v)"
  using validate_order_params_Inr [OF assms]
  by (cases "v_price v") (simp_all add: place_order_params_unfold validated_params_def)

lemma client_place_order_validated:
  assumes "validate_order_params L symbol side order_type quantity price = Inr v"
  shows "BinanceClient_place_order L c W (PStr (v_symbol v)) (PStr (v_side v))
           (PStr (v_order_type v)) (PFloat (v_quantity v))
           (case v_price v of None \<Rightarrow> PNone | Some p \<Rightarrow> PFloat p) PNone (PBool False) tr =
         make_request L c W ''POST'' ''/fapi/v1/order'' (Some (validated_params v)) True tr"
  by (simp add: BinanceClient_place_order_def place_order_params_validated [OF assms])

section \<open>Facts about the order manager\<close>

lemma OrderManager_place_order_invalid:
  assumes "validate_order_params L symbol side order_type quantity price = Inl e"
  shows "OrderManager_place_order L self W symbol side order_type quantity price tr =
           (case e of
              ValidationError m \<Rightarrow>
                (Inr [(''success'', PBool False), (''error'', PStr m),
                      (''error_type'', PStr ''VALIDATION_ERROR'')], tr)
            | _ \<Rightarrow> (Inl e, tr))"
  by (simp add: OrderManager_place_order_def assms)

lemma OrderManager_place_order_valid:
  assumes "validate_order_params L symbol side order_type quantity price = Inr v"
  shows "OrderManager_place_order L self W symbol side order_type quantity price tr =
     (case make_request L (client self) W ''POST'' ''/fapi/v1/order'' (Some (validated_params v))
             True tr of
        (Inl e, tr') \<Rightarrow>
          (case e of
             BinanceAPIError status_code error_code message \<Rightarrow>
               (Inr [(''success'', PBool False), (''error'', message),
                     (''error_code'', error_code), (''error_type'', PStr ''API_ERROR'')], tr')
           | _ \<Rightarrow>
               (Inr [(''success'', PBool False), (''error'', PStr (exn_str L e)),
                     (''error_type'', PStr ''UNKNOWN_ERROR'')], tr'))
      | (Inr response, tr') \<Rightarrow>
          (case format_order_response response of
             Inl e \<Rightarrow>
               (Inr [(''success'', PBool False), (''error'', PStr (exn_str L e)),
                     (''error_type'', PStr ''UNKNOWN_ERROR'')], tr')
           | Inr result \<Rightarrow> (Inr (dict_set result ''success'' (PBool True)), tr')))"
  by (simp add: OrderManager_place_order_def assms client_place_order_validated [OF assms])

subsection \<open>Evaluated examples\<close>

lemma validate_symbol_BTCUSDT: "validate_symbol text_floats (PStr ''BTCUSDT'') = Inr ''BTCUSDT''"
  by code_simp

lemma validate_side_SELL: "validate_side text_floats (PStr ''SELL'') = Inr ''SELL''"
  by code_simp

lemma validate_order_type_LIMIT: "validate_order_type text_floats (PStr ''LIMIT'') = Inr ''LIMIT''"
  by code_simp

lemma validate_quantity_0_001: "validate_quantity text_floats (PFloat ''0.001'') = Inr ''1e-3''"
  by code_simp

lemma validate_limit_sell_no_price:
  "validate_order_params text_floats (PStr ''BTCUSDT'') (PStr ''SELL'') (PStr ''LIMIT'')
     (PFloat ''0.001'') PNone = Inl (ValidationError ''Price is required for LIMIT orders'')"
  by (simp add: validate_order_params_def validate_symbol_BTCUSDT validate_side_SELL
        validate_order_type_LIMIT validate_quantity_0_001 validate_price_def)

lemma validate_market_buy:
  "validate_order_params text_floats (PStr ''btcusdt'') (PStr ''buy'') (PStr ''market'')
     (PFloat ''0.001'') PNone =
   Inr \<lparr>v_symbol = ''BTCUSDT'', v_side = ''BUY'', v_order_type = ''MARKET'',
        v_quantity = ''1e-3'', v_price = None\<rparr>"
  by code_simp

text \<open>
  Claim C4. When validation fails, that is when \<open>validate_order_params\<close> raises a
  \<open>ValidationError\<close>, \<open>OrderManager.place_order\<close> returns the record with \<open>success\<close> false,
  the validator's message and the error type \<open>VALIDATION_ERROR\<close>, and the trace of requests
  is the one it started with: nothing is sent. In particular an order whose type validates
  to \<open>LIMIT\<close>, with a valid symbol, side and quantity and the price \<open>None\<close>, ends so, with
  the message of \<open>validate_price\<close>.
\<close>

theorem place_order_validation_error_sends_nothing:
  "(validate_order_params L symbol side order_type quantity price = Inl (ValidationError m) \<longrightarrow>
      OrderManager_place_order L self W symbol side order_type quantity price tr =
        (Inr [(''success'', PBool False), (''error'', PStr m),
              (''error_type'', PStr ''VALIDATION_ERROR'')], tr))
   \<and> (validate_symbol L symbol = Inr sy \<and> validate_side L side = Inr si
        \<and> validate_order_type L order_type = Inr ''LIMIT''
        \<and> validate_quantity L quantity = Inr q \<longrightarrow>
      OrderManager_place_order L self W symbol side order_type quantity PNone tr =
        (Inr [(''success'', PBool False), (''error'', PStr ''Price is required for LIMIT orders''),
              (''error_type'', PStr ''VALIDATION_ERROR'')], tr))"
proof (intro conjI impI)
  assume "validate_order_params L symbol side order_type quantity price = Inl (ValidationError m)"
  then show "OrderManager_place_order L self W symbol side order_type quantity price tr =
        (Inr [(''success'', PBool False), (''error'', PStr m),
              (''error_type'', PStr ''VALIDATION_ERROR'')], tr)"
    by (simp add: OrderManager_place_order_invalid)
next
  assume a: "validate_symbol L symbol = Inr sy \<and> validate_side L side = Inr si
        \<and> validate_order_type L order_type = Inr ''LIMIT''
        \<and> validate_quantity L quantity = Inr q"
  then have "validate_order_params L symbol side order_type quantity PNone =
             Inl (ValidationError ''Price is required for LIMIT orders'')"
    by (simp add: validate_order_params_def validate_price_def)
  then show "OrderManager_place_order L self W symbol side order_type quantity PNone tr =
        (Inr [(''success'', PBool False), (''error'', PStr ''Price is required for LIMIT orders''),
              (''error_type'', PStr ''VALIDATION_ERROR'')], tr)"
    by (simp add: OrderManager_place_order_invalid)
qed

theorem place_order_validation_error_witness:
  "validate_order_params text_floats (PStr ''BTCUSDT'') (PStr ''SELL'') (PStr ''LIMIT'')
     (PFloat ''0.001'') PNone = Inl (ValidationError ''Price is required for LIMIT orders'')
   \<and> OrderManager_place_order text_floats test_manager world_ok (PStr ''BTCUSDT'') (PStr ''SELL'')
       (PStr ''LIMIT'') (PFloat ''0.001'') PNone [] =
       (Inr [(''success'', PBool False), (''error'', PStr ''Price is required for LIMIT orders''),
             (''error_type'', PStr ''VALIDATION_ERROR'')], [])"
  using place_order_validation_error_sends_nothing
          [where L = text_floats and symbol = "PStr ''BTCUSDT''" and side = "PStr ''SELL''"
             and order_type = "PStr ''LIMIT''" and quantity = "PFloat ''0.001''" and price = PNone
             and m = "''Price is required for LIMIT orders''" and self = test_manager
             and W = world_ok and tr = "[]" and sy = "''BTCUSDT''" and si = "''SELL''"
             and q = "''1e-3''"]
  by (simp add: validate_limit_sell_no_price)

lemma validate_limit_sell:
  "validate_order_params text_floats (PStr ''BTCUSDT'') (PStr ''SELL'') (PStr ''LIMIT'')
     (PFloat ''0.001'') (PStr ''5e4'') =
   Inr \<lparr>v_symbol = ''BTCUSDT'', v_side = ''SELL'', v_order_type = ''LIMIT'',
        v_quantity = ''1e-3'', v_price = Some ''5e4''\<rparr>"
  by code_simp

lemma OrderManager_place_order_client_raises:
  assumes v: "validate_order_params L symbol side order_type quantity price = Inr v"
      and r: "fst (make_request L (client self) W ''POST'' ''/fapi/v1/order''
                     (Some (validated_params v)) True tr) = Inl (BinanceAPIError status code msg)"
  shows "fst (OrderManager_place_order L self W symbol side order_type quantity price tr) =
         Inr [(''success'', PBool False), (''error'', msg), (''error_code'', code),
              (''error_type'', PStr ''API_ERROR'')]"
proof (cases "make_request L (client self) W ''POST'' ''/fapi/v1/order''
                (Some (validated_params v)) True tr")
  case (Pair a tr')
  with r have "a = Inl (BinanceAPIError status code msg)" by simp
  with Pair show ?thesis by (simp add: OrderManager_place_order_valid [OF v])
qed

text \<open>
  Claim C6. When the client's order placement raises a \<open>BinanceAPIError\<close>, the order manager
  returns the record with \<open>success\<close> false, the error type \<open>API_ERROR\<close>, the error's code
  and the error's message. A response with a status other than 200 and a JSON object as body
  is such an error, with the \<open>code\<close> and \<open>msg\<close> of the body; with status 400, code -1111
  and message \<open>Precision is over the maximum\<close> the record is the one of the scenario.
\<close>

theorem place_order_api_error_record:
  "(validate_order_params L symbol side order_type quantity price = Inr v
      \<and> BinanceClient_place_order L (client self) W (PStr (v_symbol v)) (PStr (v_side v))
            (PStr (v_order_type v)) (PFloat (v_quantity v))
            (case v_price v of None \<Rightarrow> PNone | Some p \<Rightarrow> PFloat p) PNone (PBool False) tr
          = (Inl (BinanceAPIError status code msg), tr') \<longrightarrow>
      OrderManager_place_order L self W symbol side order_type quantity price tr =
        (Inr [(''success'', PBool False), (''error'', msg), (''error_code'', code),
              (''error_type'', PStr ''API_ERROR'')], tr'))
   \<and> (validate_order_params L symbol side order_type quantity price = Inr v
        \<and> (\<forall>req. http W req = Response status (Some (PDict d))) \<and> status \<noteq> 200 \<longrightarrow>
      fst (OrderManager_place_order L self W symbol side order_type quantity price tr) =
        Inr [(''success'', PBool False),
             (''error'', dict_get_default d ''msg'' (PStr ''Unknown error'')),
             (''error_code'', dict_get_default d ''code'' (PStr ''UNKNOWN'')),
             (''error_type'', PStr ''API_ERROR'')])
   \<and> (validate_order_params L symbol side order_type quantity price = Inr v
        \<and> (\<forall>req. http W req =
               Response 400 (Some (PDict [(''code'', PInt (- 1111)),
                                          (''msg'', PStr ''Precision is over the maximum'')]))) \<longrightarrow>
      fst (OrderManager_place_order L self W symbol side order_type quantity price tr) =
        Inr [(''success'', PBool False), (''error'', PStr ''Precision is over the maximum''),
             (''error_code'', PInt (- 1111)), (''error_type'', PStr ''API_ERROR'')])"
proof (intro conjI impI)
  assume "validate_order_params L symbol side order_type quantity price = Inr v
      \<and> BinanceClient_place_order L (client self) W (PStr (v_symbol v)) (PStr (v_side v))
            (PStr (v_order_type v)) (PFloat (v_quantity v))
            (case v_price v of None \<Rightarrow> PNone | Some p \<Rightarrow> PFloat p) PNone (PBool False) tr
          = (Inl (BinanceAPIError status code msg), tr')"
  then show "OrderManager_place_order L self W symbol side order_type quantity price tr =
        (Inr [(''success'', PBool False), (''error'', msg), (''error_code'', code),
              (''error_type'', PStr ''API_ERROR'')], tr')"
    by (simp add: OrderManager_place_order_def)
next
  assume a: "validate_order_params L symbol side order_type quantity price = Inr v
        \<and> (\<forall>req. http W req = Response status (Some (PDict d))) \<and> status \<noteq> 200"
  then have "fst (make_request L (client self) W ''POST'' ''/fapi/v1/order''
                     (Some (validated_params v)) True tr) =
             Inl (BinanceAPIError status (dict_get_default d ''code'' (PStr ''UNKNOWN''))
                    (dict_get_default d ''msg'' (PStr ''Unknown error'')))"
    by (intro make_request_error_document) simp_all
  with a show "fst (OrderManager_place_order L self W symbol side order_type quantity price tr) =
        Inr [(''success'', PBool False),
             (''error'', dict_get_default d ''msg'' (PStr ''Unknown error'')),
             (''error_code'', dict_get_default d ''code'' (PStr ''UNKNOWN'')),
             (''error_type'', PStr ''API_ERROR'')]"
    by (intro OrderManager_place_order_client_raises) simp_all
next
  assume a: "validate_order_params L symbol side order_type quantity price = Inr v
        \<and> (\<forall>req. http W req =
               Response 400 (Some (PDict [(''code'', PInt (- 1111)),
                                          (''msg'', PStr ''Precision is over the maximum'')])))"
  then have "fst (make_request L (client self) W ''POST'' ''/fapi/v1/order''
                     (Some (validated_params v)) True tr) =
             Inl (BinanceAPIError 400 (PInt (- 1111)) (PStr ''Precision is over the maximum''))"
    using make_request_error_document [where meth = "''POST''" and W = W and status = 400
            and d = "[(''code'', PInt (- 1111)), (''msg'', PStr ''Precision is over the maximum'')]"
            and L = L and self = "client self" and endpoint = "''/fapi/v1/order''"
            and params = "Some (validated_params v)" and sg = True and tr = tr]
    by (simp add: dict_get_default_def)
  with a show "fst (OrderManager_place_order L self W symbol side order_type quantity price tr) =
        Inr [(''success'', PBool False), (''error'', PStr ''Precision is over the maximum''),
             (''error_code'', PInt (- 1111)), (''error_type'', PStr ''API_ERROR'')]"
    by (intro OrderManager_place_order_client_raises) simp_all
qed

theorem place_order_api_error_witness:
  "validate_order_params text_floats (PStr ''btcusdt'') (PStr ''buy'') (PStr ''market'')
     (PFloat ''0.001'') PNone =
     Inr \<lparr>v_symbol = ''BTCUSDT'', v_side = ''BUY'', v_order_type = ''MARKET'',
          v_quantity = ''1e-3'', v_price = None\<rparr>
   \<and> fst (OrderManager_place_order text_floats test_manager world_precision (PStr ''btcusdt'')
            (PStr ''buy'') (PStr ''market'') (PFloat ''0.001'') PNone []) =
       Inr [(''success'', PBool False), (''error'', PStr ''Precision is over the maximum''),
            (''error_code'', PInt (- 1111)), (''error_type'', PStr ''API_ERROR'')]"
  using place_order_api_error_record
          [where L = text_floats and symbol = "PStr ''btcusdt''" and side = "PStr ''buy''"
             and order_type = "PStr ''market''" and quantity = "PFloat ''0.001''"
             and price = PNone and self = test_manager and W = world_precision and tr = "[]"
             and v = "\<lparr>v_symbol = ''BTCUSDT'', v_side = ''BUY'', v_order_type = ''MARKET'',
                        v_quantity = ''1e-3'', v_price = None\<rparr>"]
  by (simp add: validate_market_buy world_precision_def)

text \<open>
  Claim C7. A failure of the network is raised by \<open>_make_request\<close> as a \<open>BinanceAPIError\<close> with
  status code 0 and a fixed code: \<open>TIMEOUT\<close> for a \<open>Timeout\<close> (connect or read),
  \<open>CONNECTION_ERROR\<close> for a \<open>ConnectionError\<close> that is not a timeout, \<open>REQUEST_ERROR\<close> for any
  other \<open>RequestException\<close>. An order placement that times out comes back from the order
  manager as the record with \<open>success\<close> false, error type \<open>API_ERROR\<close> and error code
  \<open>TIMEOUT\<close>.
\<close>

theorem network_failures_have_fixed_codes:
  "((meth = ''GET'' \<or> meth = ''POST'' \<or> meth = ''DELETE'') \<and> (\<forall>req. http W req = Raises e) \<longrightarrow>
      fst (make_request L c W meth endpoint params sg tr) =
        Inl (BinanceAPIError 0
               (PStr (if is_Timeout e then ''TIMEOUT''
                      else if is_ConnectionError e then ''CONNECTION_ERROR''
                      else ''REQUEST_ERROR''))
               (PStr (if is_Timeout e then ''Request timed out'' else exception_str e))))
   \<and> is_Timeout (ConnectTimeout m1) \<and> is_Timeout (ReadTimeout m2)
   \<and> \<not> is_Timeout (ConnectionError m3) \<and> is_ConnectionError (ConnectionError m3)
   \<and> \<not> is_Timeout (RequestException m4) \<and> \<not> is_ConnectionError (RequestException m4)
   \<and> (validate_order_params L symbol side order_type quantity price = Inr v
        \<and> (\<forall>req. http W req = Raises e) \<and> is_Timeout e \<longrightarrow>
      fst (OrderManager_place_order L self W symbol side order_type quantity price tr) =
        Inr [(''success'', PBool False), (''error'', PStr ''Request timed out''),
             (''error_code'', PStr ''TIMEOUT''), (''error_type'', PStr ''API_ERROR'')])"
proof (intro conjI impI)
  assume "(meth = ''GET'' \<or> meth = ''POST'' \<or> meth = ''DELETE'') \<and> (\<forall>req. http W req = Raises e)"
  then show "fst (make_request L c W meth endpoint params sg tr) =
        Inl (BinanceAPIError 0
               (PStr (if is_Timeout e then ''TIMEOUT''
                      else if is_ConnectionError e then ''CONNECTION_ERROR''
                      else ''REQUEST_ERROR''))
               (PStr (if is_Timeout e then ''Request timed out'' else exception_str e)))"
    by (intro make_request_raises) simp_all
next
  assume a: "validate_order_params L symbol side order_type quantity price = Inr v
        \<and> (\<forall>req. http W req = Raises e) \<and> is_Timeout e"
  then have "fst (make_request L (client self) W ''POST'' ''/fapi/v1/order''
                     (Some (validated_params v)) True tr) =
             Inl (BinanceAPIError 0 (PStr ''TIMEOUT'') (PStr ''Request timed out''))"
    using make_request_raises [where meth = "''POST''" and W = W and e = e and L = L
            and self = "client self" and endpoint = "''/fapi/v1/order''"
            and params = "Some (validated_params v)" and sg = True and tr = tr]
    by simp
  with a show "fst (OrderManager_place_order L self W symbol side order_type quantity price tr) =
        Inr [(''success'', PBool False), (''error'', PStr ''Request timed out''),
             (''error_code'', PStr ''TIMEOUT''), (''error_type'', PStr ''API_ERROR'')]"
    by (intro OrderManager_place_order_client_raises) simp_all
qed simp_all

theorem network_failures_witness:
  "fst (make_request text_floats test_client world_timeout ''GET'' ''/fapi/v1/time'' None False []) =
     Inl (BinanceAPIError 0 (PStr ''TIMEOUT'') (PStr ''Request timed out''))
   \<and> fst (OrderManager_place_order text_floats test_manager world_timeout (PStr ''btcusdt'')
            (PStr ''buy'') (PStr ''market'') (PFloat ''0.001'') PNone []) =
       Inr [(''success'', PBool False), (''error'', PStr ''Request timed out''),
            (''error_code'', PStr ''TIMEOUT''), (''error_type'', PStr ''API_ERROR'')]"
  using network_failures_have_fixed_codes
          [where meth = "''GET''" and W = world_timeout and e = "ConnectTimeout ''timed out''"
             and L = text_floats and c = test_client and endpoint = "''/fapi/v1/time''"
             and params = None and sg = False and tr = "[]"
             and symbol = "PStr ''btcusdt''" and side = "PStr ''buy''"
             and order_type = "PStr ''market''" and quantity = "PFloat ''0.001''"
             and price = PNone and self = test_manager
             and v = "\<lparr>v_symbol = ''BTCUSDT'', v_side = ''BUY'', v_order_type = ''MARKET'',
                        v_quantity = ''1e-3'', v_price = None\<rparr>"]
  by (simp add: validate_market_buy world_timeout_def)

lemma snd_OrderManager_place_order_valid:
  assumes v: "validate_order_params L symbol side order_type quantity price = Inr v"
  shows "snd (OrderManager_place_order L self W symbol side order_type quantity price tr) =
         snd (make_request L (client self) W ''POST'' ''/fapi/v1/order''
                (Some (validated_params v)) True tr)"
proof (cases "make_request L (client self) W ''POST'' ''/fapi/v1/order''
                (Some (validated_params v)) True tr")
  case (Pair a tr')
  show ?thesis
  proof (cases a)
    case (Inl e)
    with Pair show ?thesis
      by (cases e) (simp_all add: OrderManager_place_order_valid [OF v])
  next
    case (Inr response)
    with Pair show ?thesis
      by (cases "format_order_response response")
         (simp_all add: OrderManager_place_order_valid [OF v])
  qed
qed

lemma snd_OrderManager_place_order_invalid:
  assumes "validate_order_params L symbol side order_type quantity price = Inl e"
  shows "snd (OrderManager_place_order L self W symbol side order_type quantity price tr) = tr"
  by (cases e) (simp_all add: OrderManager_place_order_invalid [OF assms])

lemma validated_params_keys:
  "''timestamp'' \<notin> fst ` set (validated_params v) \<and> ''signature'' \<notin> fst ` set (validated_params v)
   \<and> ''reduceOnly'' \<notin> fst ` set (validated_params v)"
  by (cases "v_price v") (simp_all add: validated_params_def)

lemma OrderManager_place_order_sends:
  assumes v: "validate_order_params L symbol side order_type quantity price = Inr v"
  shows "map req_params
           (snd (OrderManager_place_order L self W symbol side order_type quantity price tr)) =
         map req_params tr @ [signed_params L (client self) W (validated_params v)]"
  by (simp add: snd_OrderManager_place_order_valid [OF v] make_request_signed_fresh
        validated_params_keys)

lemma signed_validated_params_properties:
  assumes v: "validate_order_params L symbol side order_type quantity price = Inr v"
  shows "''reduceOnly'' \<notin> fst ` set (signed_params L c W (validated_params v))
         \<and> (map_of (signed_params L c W (validated_params v)) ''type'' = Some (PStr ''LIMIT'') \<longrightarrow>
            map_of (signed_params L c W (validated_params v)) ''timeInForce'' = Some (PStr ''GTC''))"
  using validate_order_params_Inr [OF v]
  by (cases "v_price v") (simp_all add: signed_params_def validated_params_def)

text \<open>
  Claim C10. \<open>OrderManager.place_order\<close> calls the client with the five validated fields
  only. So every parameter map it sends has no \<open>reduceOnly\<close> entry, and one whose \<open>type\<close> is
  \<open>LIMIT\<close> has \<open>timeInForce\<close> equal to \<open>GTC\<close>. For a valid order the one map sent is the four
  required fields, followed by the price and \<open>timeInForce = GTC\<close> when there is a price,
  with the timestamp and the signature; for an order that does not validate nothing is sent.
\<close>

theorem order_manager_orders_have_no_reduce_only_and_gtc:
  "(\<forall>ps \<in> set (drop (length tr) (map req_params
        (snd (OrderManager_place_order L self W symbol side order_type quantity price tr)))).
       ''reduceOnly'' \<notin> fst ` set ps
       \<and> (map_of ps ''type'' = Some (PStr ''LIMIT'') \<longrightarrow>
          map_of ps ''timeInForce'' = Some (PStr ''GTC'')))
   \<and> (validate_order_params L symbol side order_type quantity price = Inr v \<longrightarrow>
        map req_params
          (snd (OrderManager_place_order L self W symbol side order_type quantity price tr)) =
        map req_params tr @ [signed_params L (client self) W (validated_params v)])
   \<and> (validate_order_params L symbol side order_type quantity price = Inl e \<longrightarrow>
        snd (OrderManager_place_order L self W symbol side order_type quantity price tr) = tr)"
proof (intro conjI impI ballI)
  fix ps
  assume ps: "ps \<in> set (drop (length tr) (map req_params
        (snd (OrderManager_place_order L self W symbol side order_type quantity price tr))))"
  have "''reduceOnly'' \<notin> fst ` set ps
       \<and> (map_of ps ''type'' = Some (PStr ''LIMIT'') \<longrightarrow>
          map_of ps ''timeInForce'' = Some (PStr ''GTC''))"
  proof (cases "validate_order_params L symbol side order_type quantity price")
    case (Inl e')
    with ps show ?thesis by (simp add: snd_OrderManager_place_order_invalid)
  next
    case (Inr v')
    with ps have "ps = signed_params L (client self) W (validated_params v')"
      by (simp add: OrderManager_place_order_sends)
    with signed_validated_params_properties [OF Inr] show ?thesis by simp
  qed
  then show "''reduceOnly'' \<notin> fst ` set ps"
    and "map_of ps ''type'' = Some (PStr ''LIMIT'') \<Longrightarrow>
         map_of ps ''timeInForce'' = Some (PStr ''GTC'')"
    by simp_all
next
  assume "validate_order_params L symbol side order_type quantity price = Inr v"
  then show "map req_params
          (snd (OrderManager_place_order L self W symbol side order_type quantity price tr)) =
        map req_params tr @ [signed_params L (client self) W (validated_params v)]"
    by (rule OrderManager_place_order_sends)
next
  assume "validate_order_params L symbol side order_type quantity price = Inl e"
  then show "snd (OrderManager_place_order L self W symbol side order_type quantity price tr) = tr"
    by (rule snd_OrderManager_place_order_invalid)
qed

theorem order_manager_orders_witness:
  "map req_params (snd (OrderManager_place_order text_floats test_manager world_ok
       (PStr ''BTCUSDT'') (PStr ''SELL'') (PStr ''LIMIT'') (PFloat ''0.001'') (PStr ''5e4'') [])) =
     [signed_params text_floats test_client world_ok
        [(''symbol'', PStr ''BTCUSDT''), (''side'', PStr ''SELL''), (''type'', PStr ''LIMIT''),
         (''quantity'', PFloat ''1e-3''), (''price'', PFloat ''5e4''),
         (''timeInForce'', PStr ''GTC'')]]
   \<and> snd (OrderManager_place_order text_floats test_manager world_ok
       (PStr ''BTCUSDT'') (PStr ''SELL'') (PStr ''LIMIT'') (PFloat ''0.001'') PNone []) = []"
  using order_manager_orders_have_no_reduce_only_and_gtc
          [where L = text_floats and self = test_manager and W = world_ok and tr = "[]"
             and symbol = "PStr ''BTCUSDT''" and side = "PStr ''SELL''"
             and order_type = "PStr ''LIMIT''" and quantity = "PFloat ''0.001''"
             and price = "PStr ''5e4''"
             and v = "\<lparr>v_symbol = ''BTCUSDT'', v_side = ''SELL'', v_order_type = ''LIMIT'',
                        v_quantity = ''1e-3'', v_price = Some ''5e4''\<rparr>"]
        order_manager_orders_have_no_reduce_only_and_gtc
          [where L = text_floats and self = test_manager and W = world_ok and tr = "[]"
             and symbol = "PStr ''BTCUSDT''" and side = "PStr ''SELL''"
             and order_type = "PStr ''LIMIT''" and quantity = "PFloat ''0.001''"
             and price = PNone and e = "ValidationError ''Price is required for LIMIT orders''"]
  by (simp add: validate_limit_sell validate_limit_sell_no_price validated_params_def
        test_manager_def)

lemma dict_get_dict_set_same: "dict_get (dict_set d k v) k = v"
  by (simp add: dict_get_def map_of_dict_set_same)

lemma dict_get_dict_set_other: "k' \<noteq> k \<Longrightarrow> dict_get (dict_set d k v) k' = dict_get d k'"
  by (simp add: dict_get_def map_of_dict_set_other)

lemma format_order_response_fields:
  assumes "format_order_response (PDict d) = Inr res"
  shows "dict_get (dict_set res ''success'' (PBool True)) ''success'' = PBool True
         \<and> dict_get (dict_set res ''success'' (PBool True)) ''price'' = dict_get d ''price''
         \<and> dict_get (dict_set res ''success'' (PBool True)) ''avg_price'' = dict_get d ''avgPrice''"
proof -
  from assms have res: "res =
     [(''order_id'', dict_get d ''orderId''),
               (''symbol'', dict_get d ''symbol''),
               (''side'', dict_get d ''side''),
               (''type'', dict_get d ''type''),
               (''status'', dict_get d ''status''),
               (''quantity'', dict_get d ''origQty''),
               (''executed_qty'', dict_get d ''executedQty''),
               (''price'', dict_get d ''price''),
               (''avg_price'', dict_get d ''avgPrice''),
               (''time_in_force'', dict_get d ''timeInForce''),
               (''reduce_only'', dict_get d ''reduceOnly''),
               (''timestamp'', dict_get d ''updateTime''),
               (''raw_response'', PDict d)]"
    by (simp add: format_order_response_def)
  have 1: "dict_get res ''price'' = dict_get d ''price''"
    unfolding res by (simp add: dict_get_def [of "_ # _"])
  have 2: "dict_get res ''avg_price'' = dict_get d ''avgPrice''"
    unfolding res by (simp add: dict_get_def [of "_ # _"])
  show ?thesis
    by (simp add: dict_get_dict_set_same dict_get_dict_set_other 1 2)
qed

lemma summary_lines_unfold:
  "summary_lines L r =
     summary_head L r
     @ (if truthy L (dict_get r ''price'') \<and> dict_get r ''price'' \<noteq> PStr ''0''
        then [''Price:        '' @ py_str L (dict_get r ''price'')] else [])
     @ (if truthy L (dict_get r ''avg_price'') \<and> dict_get r ''avg_price'' \<noteq> PStr ''0''
        then [''Avg Price:    '' @ py_str L (dict_get r ''avg_price'')] else [])
     @ [replicate 50 CHR ''='']"
  by (simp add: summary_lines_def summary_head_def Let_def)

lemma bar_prefix: "replicate 6 CHR ''='' \<noteq> ''Price:''"
  by code_simp

lemma bar_prefix10: "replicate 10 CHR ''='' \<noteq> ''Avg Price:''"
  by code_simp

lemma summary_head_no_price_line: "\<forall>l \<in> set (summary_head L r). take 6 l \<noteq> ''Price:''"
  by (simp add: summary_head_def bar_prefix)

lemma summary_head_no_avg_price_line: "\<forall>l \<in> set (summary_head L r). take 10 l \<noteq> ''Avg Price:''"
  by (simp add: summary_head_def bar_prefix10)

text \<open>
  Claim C9. When the \<open>price\<close> of an order result is the string \<open>0\<close>, the list of lines of
  \<open>get_order_summary\<close> is the ten leading lines, the \<open>Avg Price\<close> line if there is an average
  price other than \<open>0\<close>, and the closing bar: no line of it starts with \<open>Price:\<close>. When
  \<open>avg_price\<close> is the string \<open>0\<close>, likewise no line starts with \<open>Avg Price:\<close>. A successful
  result is rendered as these lines joined by newlines, and the result that the order manager
  makes of an API response carries the \<open>price\<close> and \<open>avgPrice\<close> of that response.
\<close>

theorem order_summary_omits_zero_price_lines:
  "(dict_get r ''price'' = PStr ''0'' \<longrightarrow>
      summary_lines L r =
        summary_head L r
        @ (if truthy L (dict_get r ''avg_price'') \<and> dict_get r ''avg_price'' \<noteq> PStr ''0''
           then [''Avg Price:    '' @ py_str L (dict_get r ''avg_price'')] else [])
        @ [replicate 50 CHR ''='']
      \<and> (\<forall>l \<in> set (summary_lines L r). take 6 l \<noteq> ''Price:''))
   \<and> (dict_get r ''avg_price'' = PStr ''0'' \<longrightarrow>
      summary_lines L r =
        summary_head L r
        @ (if truthy L (dict_get r ''price'') \<and> dict_get r ''price'' \<noteq> PStr ''0''
           then [''Price:        '' @ py_str L (dict_get r ''price'')] else [])
        @ [replicate 50 CHR ''='']
      \<and> (\<forall>l \<in> set (summary_lines L r). take 10 l \<noteq> ''Avg Price:''))
   \<and> (truthy L (dict_get r ''success'') \<longrightarrow>
        get_order_summary L r = join [CHR 0x0A] (summary_lines L r))
   \<and> (format_order_response (PDict d) = Inr res \<longrightarrow>
        dict_get (dict_set res ''success'' (PBool True)) ''success'' = PBool True
        \<and> dict_get (dict_set res ''success'' (PBool True)) ''price'' = dict_get d ''price''
        \<and> dict_get (dict_set res ''success'' (PBool True)) ''avg_price'' = dict_get d ''avgPrice'')"
proof (intro conjI impI)
  assume p: "dict_get r ''price'' = PStr ''0''"
  show "summary_lines L r =
        summary_head L r
        @ (if truthy L (dict_get r ''avg_price'') \<and> dict_get r ''avg_price'' \<noteq> PStr ''0''
           then [''Avg Price:    '' @ py_str L (dict_get r ''avg_price'')] else [])
        @ [replicate 50 CHR ''='']"
    by (simp add: summary_lines_unfold p)
  show "\<forall>l \<in> set (summary_lines L r). take 6 l \<noteq> ''Price:''"
    using summary_head_no_price_line [of L r]
    by (auto simp: summary_lines_unfold p bar_prefix)
next
  assume a: "dict_get r ''avg_price'' = PStr ''0''"
  show "summary_lines L r =
        summary_head L r
        @ (if truthy L (dict_get r ''price'') \<and> dict_get r ''price'' \<noteq> PStr ''0''
           then [''Price:        '' @ py_str L (dict_get r ''price'')] else [])
        @ [replicate 50 CHR ''='']"
    by (simp add: summary_lines_unfold a)
  show "\<forall>l \<in> set (summary_lines L r). take 10 l \<noteq> ''Avg Price:''"
    using summary_head_no_avg_price_line [of L r]
    by (auto simp: summary_lines_unfold a bar_prefix10)
next
  assume "truthy L (dict_get r ''success'')"
  then show "get_order_summary L r = join [CHR 0x0A] (summary_lines L r)"
    by (simp add: get_order_summary_def)
next
  assume "format_order_response (PDict d) = Inr res"
  from format_order_response_fields [OF this]
  show "dict_get (dict_set res ''success'' (PBool True)) ''success'' = PBool True"
    and "dict_get (dict_set res ''success'' (PBool True)) ''price'' = dict_get d ''price''"
    and "dict_get (dict_set res ''success'' (PBool True)) ''avg_price'' = dict_get d ''avgPrice''"
    by simp_all
qed

lemma market_result_price:
  "dict_get market_result ''price'' = PStr ''0'' \<and> dict_get market_result ''avg_price'' = PStr ''0''
   \<and> truthy text_floats (dict_get market_result ''success'')"
  by code_simp

lemma market_result_head:
  "summary_head text_floats market_result =
     [replicate 50 CHR ''='', ''ORDER EXECUTED SUCCESSFULLY'', replicate 50 CHR ''='',
      ''Order ID:     7'', ''Symbol:       BTCUSDT'', ''Side:         BUY'',
      ''Type:         MARKET'', ''Status:       NEW'', ''Quantity:     0.001'',
      ''Executed:     0'']"
  by code_simp

theorem order_summary_witness:
  "dict_get market_result ''price'' = PStr ''0''
   \<and> dict_get market_result ''avg_price'' = PStr ''0''
   \<and> truthy text_floats (dict_get market_result ''success'')
   \<and> get_order_summary text_floats market_result =
       join [CHR 0x0A]
         [replicate 50 CHR ''='', ''ORDER EXECUTED SUCCESSFULLY'', replicate 50 CHR ''='',
          ''Order ID:     7'', ''Symbol:       BTCUSDT'', ''Side:         BUY'',
          ''Type:         MARKET'', ''Status:       NEW'', ''Quantity:     0.001'',
          ''Executed:     0'', replicate 50 CHR ''='']"
proof -
  note T = order_summary_omits_zero_price_lines [where r = market_result and L = text_floats]
  note P = market_result_price
  from T P have B: "summary_lines text_floats market_result =
        summary_head text_floats market_result
        @ (if truthy text_floats (dict_get market_result ''avg_price'')
              \<and> dict_get market_result ''avg_price'' \<noteq> PStr ''0''
           then [''Avg Price:    '' @ py_str text_floats (dict_get market_result ''avg_price'')]
           else [])
        @ [replicate 50 CHR ''='']"
    by blast
  from T P have G: "get_order_summary text_floats market_result =
        join [CHR 0x0A] (summary_lines text_floats market_result)"
    by blast
  have E: "summary_lines text_floats market_result =
         [replicate 50 CHR ''='', ''ORDER EXECUTED SUCCESSFULLY'', replicate 50 CHR ''='',
          ''Order ID:     7'', ''Symbol:       BTCUSDT'', ''Side:         BUY'',
          ''Type:         MARKET'', ''Status:       NEW'', ''Quantity:     0.001'',
          ''Executed:     0'', replicate 50 CHR ''='']"
    unfolding B market_result_head using P by simp
  show ?thesis
    unfolding G E using P by simp
qed

lemma fst_OrderManager_cancel_order:
  "fst (OrderManager_cancel_order L self W symbol order_id tr) =
     (case fst (BinanceClient_cancel_order L (client self) W symbol order_id tr) of
        Inr response \<Rightarrow> Inr [(''success'', PBool True), (''response'', response)]
      | Inl e \<Rightarrow>
          (case e of
             BinanceAPIError status_code error_code message \<Rightarrow>
               Inr [(''success'', PBool False), (''error'', message)]
           | _ \<Rightarrow> Inl e))"
proof (cases "BinanceClient_cancel_order L (client self) W symbol order_id tr")
  case (Pair a tr')
  show ?thesis
  proof (cases a)
    case (Inl e)
    with Pair show ?thesis by (cases e) (simp_all add: OrderManager_cancel_order_def)
  next
    case (Inr response)
    with Pair show ?thesis by (simp add: OrderManager_cancel_order_def)
  qed
qed

lemma fst_OrderManager_get_open_orders:
  "fst (OrderManager_get_open_orders L self W symbol tr) =
     (case fst (BinanceClient_get_open_orders L (client self) W symbol tr) of
        Inr orders \<Rightarrow> Inr [(''success'', PBool True), (''orders'', orders)]
      | Inl e \<Rightarrow>
          (case e of
             BinanceAPIError status_code error_code message \<Rightarrow>
               Inr [(''success'', PBool False), (''error'', message)]
           | _ \<Rightarrow> Inl e))"
proof (cases "BinanceClient_get_open_orders L (client self) W symbol tr")
  case (Pair a tr')
  show ?thesis
  proof (cases a)
    case (Inl e)
    with Pair show ?thesis by (cases e) (simp_all add: OrderManager_get_open_orders_def)
  next
    case (Inr orders)
    with Pair show ?thesis by (simp add: OrderManager_get_open_orders_def)
  qed
qed

lemma place_order_result_valid:
  assumes v: "validate_order_params L symbol side order_type quantity price = Inr v"
  shows "\<exists>r. fst (OrderManager_place_order L self W symbol side order_type quantity price tr) = Inr r
           \<and> (dict_get r ''success'' = PBool True
               \<or> (dict_get r ''success'' = PBool False
                   \<and> (dict_get r ''error_type'' = PStr ''API_ERROR''
                       \<or> dict_get r ''error_type'' = PStr ''UNKNOWN_ERROR'')))"
proof (cases "make_request L (client self) W ''POST'' ''/fapi/v1/order''
                (Some (validated_params v)) True tr")
  case (Pair a tr')
  show ?thesis
  proof (cases a)
    case (Inl e)
    with Pair show ?thesis
      by (cases e) (simp_all add: OrderManager_place_order_valid [OF v] dict_get_def)
  next
    case (Inr response)
    show ?thesis
    proof (cases "format_order_response response")
      case (Inl e)
      with Pair Inr show ?thesis
        by (simp add: OrderManager_place_order_valid [OF v] dict_get_def)
    next
      case (Inr res)
      with Pair \<open>a = Inr response\<close> show ?thesis
        by (simp add: OrderManager_place_order_valid [OF v] dict_get_dict_set_same)
    qed
  qed
qed

lemma make_request_ok:
  assumes "meth = ''GET'' \<or> meth = ''POST'' \<or> meth = ''DELETE''"
      and "\<And>req. http W req = Response 200 (Some data)"
  shows "fst (make_request L self W meth endpoint params sg tr) = Inr data"
proof -
  have m: "\<not> (meth \<noteq> ''GET'' \<and> meth \<noteq> ''POST'' \<and> meth \<noteq> ''DELETE'')"
    using assms(1) by blast
  show ?thesis
    unfolding make_request_def Let_def if_not_P [OF m] assms(2)
    by simp
qed

lemma pair_with_snd: "fst x = a \<Longrightarrow> x = (a, snd x)"
  by (cases x) simp

text \<open>
  Claim C8, as the code has it. \<open>place_order\<close> turns a \<open>ValidationError\<close> of the validators
  into the \<open>VALIDATION_ERROR\<close> record. For a validated order the outcome of the client call
  decides the record: a \<open>BinanceAPIError\<close> gives the \<open>API_ERROR\<close> record with its message
  and code; an exception of any other class gives the \<open>UNKNOWN_ERROR\<close> record with its
  \<open>str\<close>, and so does an exception raised while the response is formatted; a response that
  is formatted gives the formatted result with \<open>success\<close> set. So a validated order always
  comes back as a record. \<open>cancel_order\<close> and \<open>get_open_orders\<close> return the success record
  for a response and turn a \<open>BinanceAPIError\<close> into the record with \<open>success\<close> false and the
  message, a record that has no \<open>error_type\<close>.
\<close>

theorem order_manager_converts_the_exceptions_it_handles:
  "(validate_order_params L symbol side order_type quantity price = Inl (ValidationError m) \<longrightarrow>
      OrderManager_place_order L self W symbol side order_type quantity price tr =
        (Inr [(''success'', PBool False), (''error'', PStr m),
              (''error_type'', PStr ''VALIDATION_ERROR'')], tr))
   \<and> (validate_order_params L symbol side order_type quantity price = Inr v
        \<and> BinanceClient_place_order L (client self) W (PStr (v_symbol v)) (PStr (v_side v))
              (PStr (v_order_type v)) (PFloat (v_quantity v))
              (case v_price v of None \<Rightarrow> PNone | Some p \<Rightarrow> PFloat p) PNone (PBool False) tr
            = (Inl (BinanceAPIError status code msg), tr') \<longrightarrow>
      OrderManager_place_order L self W symbol side order_type quantity price tr =
        (Inr [(''success'', PBool False), (''error'', msg), (''error_code'', code),
              (''error_type'', PStr ''API_ERROR'')], tr'))
   \<and> (validate_order_params L symbol side order_type quantity price = Inr v
        \<and> BinanceClient_place_order L (client self) W (PStr (v_symbol v)) (PStr (v_side v))
              (PStr (v_order_type v)) (PFloat (v_quantity v))
              (case v_price v of None \<Rightarrow> PNone | Some p \<Rightarrow> PFloat p) PNone (PBool False) tr
            = (Inl e, tr')
        \<and> (\<forall>status code msg. e \<noteq> BinanceAPIError status code msg) \<longrightarrow>
      OrderManager_place_order L self W symbol side order_type quantity price tr =
        (Inr [(''success'', PBool False), (''error'', PStr (exn_str L e)),
              (''error_type'', PStr ''UNKNOWN_ERROR'')], tr'))
   \<and> (validate_order_params L symbol side order_type quantity price = Inr v
        \<and> BinanceClient_place_order L (client self) W (PStr (v_symbol v)) (PStr (v_side v))
              (PStr (v_order_type v)) (PFloat (v_quantity v))
              (case v_price v of None \<Rightarrow> PNone | Some p \<Rightarrow> PFloat p) PNone (PBool False) tr
            = (Inr response, tr')
        \<and> format_order_response response = Inl e \<longrightarrow>
      OrderManager_place_order L self W symbol side order_type quantity price tr =
        (Inr [(''success'', PBool False), (''error'', PStr (exn_str L e)),
              (''error_type'', PStr ''UNKNOWN_ERROR'')], tr'))
   \<and> (validate_order_params L symbol side order_type quantity price = Inr v
        \<and> BinanceClient_place_order L (client self) W (PStr (v_symbol v)) (PStr (v_side v))
              (PStr (v_order_type v)) (PFloat (v_quantity v))
              (case v_price v of None \<Rightarrow> PNone | Some p \<Rightarrow> PFloat p) PNone (PBool False) tr
            = (Inr response, tr')
        \<and> format_order_response response = Inr result \<longrightarrow>
      OrderManager_place_order L self W symbol side order_type quantity price tr =
        (Inr (dict_set result ''success'' (PBool True)), tr'))
   \<and> (validate_order_params L symbol side order_type quantity price = Inr v \<longrightarrow>
       (\<exists>r. fst (OrderManager_place_order L self W symbol side order_type quantity price tr) = Inr r
           \<and> (dict_get r ''success'' = PBool True
               \<or> (dict_get r ''success'' = PBool False
                   \<and> (dict_get r ''error_type'' = PStr ''API_ERROR''
                       \<or> dict_get r ''error_type'' = PStr ''UNKNOWN_ERROR'')))))
   \<and> (BinanceClient_cancel_order L (client self) W symbol order_id tr = (Inr response, tr') \<longrightarrow>
        OrderManager_cancel_order L self W symbol order_id tr =
          (Inr [(''success'', PBool True), (''response'', response)], tr'))
   \<and> (BinanceClient_cancel_order L (client self) W symbol order_id tr
          = (Inl (BinanceAPIError status code msg), tr') \<longrightarrow>
        OrderManager_cancel_order L self W symbol order_id tr =
          (Inr [(''success'', PBool False), (''error'', msg)], tr'))
   \<and> (BinanceClient_get_open_orders L (client self) W symbol tr = (Inr response, tr') \<longrightarrow>
        OrderManager_get_open_orders L self W symbol tr =
          (Inr [(''success'', PBool True), (''orders'', response)], tr'))
   \<and> (BinanceClient_get_open_orders L (client self) W symbol tr
          = (Inl (BinanceAPIError status code msg), tr') \<longrightarrow>
        OrderManager_get_open_orders L self W symbol tr =
          (Inr [(''success'', PBool False), (''error'', msg)], tr'))"
proof -
  have 1: "validate_order_params L symbol side order_type quantity price = Inl (ValidationError m) \<longrightarrow>
      OrderManager_place_order L self W symbol side order_type quantity price tr =
        (Inr [(''success'', PBool False), (''error'', PStr m),
              (''error_type'', PStr ''VALIDATION_ERROR'')], tr)"
    by (simp add: OrderManager_place_order_invalid)
  have 2: "validate_order_params L symbol side order_type quantity price = Inr v
        \<and> BinanceClient_place_order L (client self) W (PStr (v_symbol v)) (PStr (v_side v))
              (PStr (v_order_type v)) (PFloat (v_quantity v))
              (case v_price v of None \<Rightarrow> PNone | Some p \<Rightarrow> PFloat p) PNone (PBool False) tr
            = (Inl (BinanceAPIError status code msg), tr') \<longrightarrow>
      OrderManager_place_order L self W symbol side order_type quantity price tr =
        (Inr [(''success'', PBool False), (''error'', msg), (''error_code'', code),
              (''error_type'', PStr ''API_ERROR'')], tr')"
    by (simp add: OrderManager_place_order_def)
  have 3: "validate_order_params L symbol side order_type quantity price = Inr v
        \<and> BinanceClient_place_order L (client self) W (PStr (v_symbol v)) (PStr (v_side v))
              (PStr (v_order_type v)) (PFloat (v_quantity v))
              (case v_price v of None \<Rightarrow> PNone | Some p \<Rightarrow> PFloat p) PNone (PBool False) tr
            = (Inl e, tr')
        \<and> (\<forall>status code msg. e \<noteq> BinanceAPIError status code msg) \<longrightarrow>
      OrderManager_place_order L self W symbol side order_type quantity price tr =
        (Inr [(''success'', PBool False), (''error'', PStr (exn_str L e)),
              (''error_type'', PStr ''UNKNOWN_ERROR'')], tr')"
    by (cases e) (simp_all add: OrderManager_place_order_def)
  have 4: "validate_order_params L symbol side order_type quantity price = Inr v
        \<and> BinanceClient_place_order L (client self) W (PStr (v_symbol v)) (PStr (v_side v))
              (PStr (v_order_type v)) (PFloat (v_quantity v))
              (case v_price v of None \<Rightarrow> PNone | Some p \<Rightarrow> PFloat p) PNone (PBool False) tr
            = (Inr response, tr')
        \<and> format_order_response response = Inl e \<longrightarrow>
      OrderManager_place_order L self W symbol side order_type quantity price tr =
        (Inr [(''success'', PBool False), (''error'', PStr (exn_str L e)),
              (''error_type'', PStr ''UNKNOWN_ERROR'')], tr')"
    by (simp add: OrderManager_place_order_def)
  have 5: "validate_order_params L symbol side order_type quantity price = Inr v
        \<and> BinanceClient_place_order L (client self) W (PStr (v_symbol v)) (PStr (v_side v))
              (PStr (v_order_type v)) (PFloat (v_quantity v))
              (case v_price v of None \<Rightarrow> PNone | Some p \<Rightarrow> PFloat p) PNone (PBool False) tr
            = (Inr response, tr')
        \<and> format_order_response response = Inr result \<longrightarrow>
      OrderManager_place_order L self W symbol side order_type quantity price tr =
        (Inr (dict_set result ''success'' (PBool True)), tr')"
    by (simp add: OrderManager_place_order_def)
  have 6: "validate_order_params L symbol side order_type quantity price = Inr v \<longrightarrow>
       (\<exists>r. fst (OrderManager_place_order L self W symbol side order_type quantity price tr) = Inr r
           \<and> (dict_get r ''success'' = PBool True
               \<or> (dict_get r ''success'' = PBool False
                   \<and> (dict_get r ''error_type'' = PStr ''API_ERROR''
                       \<or> dict_get r ''error_type'' = PStr ''UNKNOWN_ERROR''))))"
    using place_order_result_valid by blast
  have 7: "BinanceClient_cancel_order L (client self) W symbol order_id tr = (Inr response, tr') \<longrightarrow>
        OrderManager_cancel_order L self W symbol order_id tr =
          (Inr [(''success'', PBool True), (''response'', response)], tr')"
    by (simp add: OrderManager_cancel_order_def)
  have 8: "BinanceClient_cancel_order L (client self) W symbol order_id tr
          = (Inl (BinanceAPIError status code msg), tr') \<longrightarrow>
        OrderManager_cancel_order L self W symbol order_id tr =
          (Inr [(''success'', PBool False), (''error'', msg)], tr')"
    by (simp add: OrderManager_cancel_order_def)
  have 9: "BinanceClient_get_open_orders L (client self) W symbol tr = (Inr response, tr') \<longrightarrow>
        OrderManager_get_open_orders L self W symbol tr =
          (Inr [(''success'', PBool True), (''orders'', response)], tr')"
    by (simp add: OrderManager_get_open_orders_def)
  have 10: "BinanceClient_get_open_orders L (client self) W symbol tr
          = (Inl (BinanceAPIError status code msg), tr') \<longrightarrow>
        OrderManager_get_open_orders L self W symbol tr =
          (Inr [(''success'', PBool False), (''error'', msg)], tr')"
    by (simp add: OrderManager_get_open_orders_def)
  from 1 2 3 4 5 6 7 8 9 10 show ?thesis by (intro conjI)
qed

lemma cancel_order_bad_gateway:
  "fst (BinanceClient_cancel_order text_floats test_client world_bad_gateway
          (PStr ''BTCUSDT'') (PInt 7) []) = Inl (no_attribute (PList []) ''get'')"
  unfolding BinanceClient_cancel_order_def
  by (rule make_request_error_not_object [where status = 502]) (simp_all add: world_bad_gateway_def)

lemma cancel_order_timeout:
  "fst (BinanceClient_cancel_order text_floats test_client world_timeout
          (PStr ''BTCUSDT'') (PInt 7) []) =
   Inl (BinanceAPIError 0 (PStr ''TIMEOUT'') (PStr ''Request timed out''))"
  using make_request_raises [where W = world_timeout and e = "ConnectTimeout ''timed out''"
          and meth = "''DELETE''" and L = text_floats and self = test_client
          and endpoint = "''/fapi/v1/order''"
          and params = "Some [(''symbol'', PStr ''BTCUSDT''), (''orderId'', PInt 7)]"
          and sg = True and tr = "[]"]
  by (simp add: BinanceClient_cancel_order_def world_timeout_def)

lemma get_open_orders_bad_gateway:
  "fst (BinanceClient_get_open_orders text_floats test_client world_bad_gateway PNone []) =
   Inl (no_attribute (PList []) ''get'')"
  unfolding BinanceClient_get_open_orders_def Let_def
  by (rule make_request_error_not_object [where status = 502]) (simp_all add: world_bad_gateway_def)

theorem order_manager_conversion_witness:
  "fst (OrderManager_place_order text_floats test_manager world_ok (PStr ''BTCUSDT'')
          (PStr ''SELL'') (PStr ''LIMIT'') (PFloat ''0.001'') PNone []) =
     Inr [(''success'', PBool False), (''error'', PStr ''Price is required for LIMIT orders''),
          (''error_type'', PStr ''VALIDATION_ERROR'')]
   \<and> fst (OrderManager_place_order text_floats test_manager world_precision (PStr ''btcusdt'')
            (PStr ''buy'') (PStr ''market'') (PFloat ''0.001'') PNone []) =
     Inr [(''success'', PBool False), (''error'', PStr ''Precision is over the maximum''),
          (''error_code'', PInt (- 1111)), (''error_type'', PStr ''API_ERROR'')]
   \<and> fst (OrderManager_place_order text_floats test_manager world_bad_gateway (PStr ''btcusdt'')
            (PStr ''buy'') (PStr ''market'') (PFloat ''0.001'') PNone []) =
     Inr [(''success'', PBool False),
          (''error'', PStr (exn_str text_floats (no_attribute (PList []) ''get''))),
          (''error_type'', PStr ''UNKNOWN_ERROR'')]
   \<and> fst (OrderManager_place_order text_floats test_manager world_ok (PStr ''btcusdt'')
            (PStr ''buy'') (PStr ''market'') (PFloat ''0.001'') PNone []) = Inr market_result
   \<and> fst (OrderManager_cancel_order text_floats test_manager world_timeout
            (PStr ''BTCUSDT'') (PInt 7) []) =
     Inr [(''success'', PBool False), (''error'', PStr ''Request timed out'')]"
proof -
  define v where "v = \<lparr>v_symbol = ''BTCUSDT'', v_side = ''BUY'', v_order_type = ''MARKET'',
                        v_quantity = ''1e-3'', v_price = (None :: string option)\<rparr>"
  define call where "call = (\<lambda>W. BinanceClient_place_order text_floats (client test_manager) W
        (PStr (v_symbol v)) (PStr (v_side v)) (PStr (v_order_type v)) (PFloat (v_quantity v))
        (case v_price v of None \<Rightarrow> PNone | Some p \<Rightarrow> PFloat p) PNone (PBool False) [])"
  have valid: "validate_order_params text_floats (PStr ''btcusdt'') (PStr ''buy'') (PStr ''market'')
                 (PFloat ''0.001'') PNone = Inr v"
    by (simp add: validate_market_buy v_def)
  have req: "call W = make_request text_floats (client test_manager) W ''POST'' ''/fapi/v1/order''
                        (Some (validated_params v)) True []" for W
    unfolding call_def by (rule client_place_order_validated [OF valid])
  have "fst (call world_precision) =
          Inl (BinanceAPIError 400 (PInt (- 1111)) (PStr ''Precision is over the maximum''))"
    unfolding req
    using make_request_error_document [where W = world_precision and status = 400
            and d = "[(''code'', PInt (- 1111)), (''msg'', PStr ''Precision is over the maximum'')]"
            and meth = "''POST''" and L = text_floats and self = "client test_manager"
            and endpoint = "''/fapi/v1/order''" and params = "Some (validated_params v)"
            and sg = True and tr = "[]"]
    by (simp add: world_precision_def dict_get_default_def)
  then have c1: "call world_precision =
          (Inl (BinanceAPIError 400 (PInt (- 1111)) (PStr ''Precision is over the maximum'')),
           snd (call world_precision))"
    by (rule pair_with_snd)
  have "fst (call world_bad_gateway) = Inl (no_attribute (PList []) ''get'')"
    unfolding req
    by (rule make_request_error_not_object [where status = 502])
       (simp_all add: world_bad_gateway_def)
  then have c2: "call world_bad_gateway =
          (Inl (no_attribute (PList []) ''get''), snd (call world_bad_gateway))"
    by (rule pair_with_snd)
  have "fst (call world_ok) = Inr order_response"
    unfolding req by (rule make_request_ok) (simp_all add: world_ok_def)
  then have c3: "call world_ok = (Inr order_response, snd (call world_ok))"
    by (rule pair_with_snd)
  obtain res where f: "format_order_response order_response = Inr res"
    by (simp add: format_order_response_def order_response_def)
  have mr: "market_result = dict_set res ''success'' (PBool True)"
    by (simp add: market_result_def f)
  have other: "\<forall>status code msg.
                 no_attribute (PList []) ''get'' \<noteq> (BinanceAPIError status code msg :: string exn)"
    by (simp add: no_attribute_def)
  have c4: "BinanceClient_cancel_order text_floats (client test_manager) world_timeout
              (PStr ''BTCUSDT'') (PInt 7) [] =
            (Inl (BinanceAPIError 0 (PStr ''TIMEOUT'') (PStr ''Request timed out'')),
             snd (BinanceClient_cancel_order text_floats (client test_manager) world_timeout
                    (PStr ''BTCUSDT'') (PInt 7) []))"
    by (rule pair_with_snd) (simp add: test_manager_def cancel_order_timeout)
  note T = order_manager_converts_the_exceptions_it_handles
  have r0: "OrderManager_place_order text_floats test_manager world_ok (PStr ''BTCUSDT'')
              (PStr ''SELL'') (PStr ''LIMIT'') (PFloat ''0.001'') PNone [] =
            (Inr [(''success'', PBool False),
                  (''error'', PStr ''Price is required for LIMIT orders''),
                  (''error_type'', PStr ''VALIDATION_ERROR'')], [])"
    using T [where L = text_floats and self = test_manager and W = world_ok and tr = "[]"
               and symbol = "PStr ''BTCUSDT''" and side = "PStr ''SELL''"
               and order_type = "PStr ''LIMIT''" and quantity = "PFloat ''0.001''"
               and price = PNone and m = "''Price is required for LIMIT orders''"]
          validate_limit_sell_no_price
    by blast
  have r1: "OrderManager_place_order text_floats test_manager world_precision (PStr ''btcusdt'')
              (PStr ''buy'') (PStr ''market'') (PFloat ''0.001'') PNone [] =
            (Inr [(''success'', PBool False), (''error'', PStr ''Precision is over the maximum''),
                  (''error_code'', PInt (- 1111)), (''error_type'', PStr ''API_ERROR'')],
             snd (call world_precision))"
    using T [where L = text_floats and self = test_manager and W = world_precision and tr = "[]"
               and symbol = "PStr ''btcusdt''" and side = "PStr ''buy''"
               and order_type = "PStr ''market''" and quantity = "PFloat ''0.001''"
               and price = PNone and v = v and status = 400 and code = "PInt (- 1111)"
               and msg = "PStr ''Precision is over the maximum''"
               and tr' = "snd (call world_precision)"]
          valid c1 [unfolded call_def]
    unfolding call_def by blast
  have r2: "OrderManager_place_order text_floats test_manager world_bad_gateway (PStr ''btcusdt'')
              (PStr ''buy'') (PStr ''market'') (PFloat ''0.001'') PNone [] =
            (Inr [(''success'', PBool False),
                  (''error'', PStr (exn_str text_floats (no_attribute (PList []) ''get''))),
                  (''error_type'', PStr ''UNKNOWN_ERROR'')],
             snd (call world_bad_gateway))"
    using T [where L = text_floats and self = test_manager and W = world_bad_gateway
               and tr = "[]" and symbol = "PStr ''btcusdt''" and side = "PStr ''buy''"
               and order_type = "PStr ''market''" and quantity = "PFloat ''0.001''"
               and price = PNone and v = v and e = "no_attribute (PList []) ''get''"
               and tr' = "snd (call world_bad_gateway)"]
          valid c2 [unfolded call_def] other
    unfolding call_def by blast
  have r3: "OrderManager_place_order text_floats test_manager world_ok (PStr ''btcusdt'')
              (PStr ''buy'') (PStr ''market'') (PFloat ''0.001'') PNone [] =
            (Inr (dict_set res ''success'' (PBool True)), snd (call world_ok))"
    using T [where L = text_floats and self = test_manager and W = world_ok and tr = "[]"
               and symbol = "PStr ''btcusdt''" and side = "PStr ''buy''"
               and order_type = "PStr ''market''" and quantity = "PFloat ''0.001''"
               and price = PNone and v = v and response = order_response and result = res
               and tr' = "snd (call world_ok)"]
          valid c3 [unfolded call_def] f
    unfolding call_def by blast
  have r4: "OrderManager_cancel_order text_floats test_manager world_timeout
              (PStr ''BTCUSDT'') (PInt 7) [] =
            (Inr [(''success'', PBool False), (''error'', PStr ''Request timed out'')],
             snd (BinanceClient_cancel_order text_floats (client test_manager) world_timeout
                    (PStr ''BTCUSDT'') (PInt 7) []))"
    using T [where L = text_floats and self = test_manager and W = world_timeout and tr = "[]"
               and symbol = "PStr ''BTCUSDT''" and order_id = "PInt 7" and status = 0
               and code = "PStr ''TIMEOUT''" and msg = "PStr ''Request timed out''"
               and tr' = "snd (BinanceClient_cancel_order text_floats (client test_manager)
                                 world_timeout (PStr ''BTCUSDT'') (PInt 7) [])"]
          c4
    by blast
  show ?thesis
    by (simp add: r0 r1 r2 r3 r4 mr)
qed

text \<open>
  Claim C8 says that no exception leaves \<open>place_order\<close>, \<open>cancel_order\<close> or
  \<open>get_open_orders\<close> and that every failure record has an \<open>error_type\<close>. When a gateway
  answers a cancellation, or a query for the open orders, with status 502 and a JSON list,
  \<open>data.get\<close> in \<open>_make_request\<close> raises \<open>AttributeError\<close>, which the single handler
  \<open>except BinanceAPIError\<close> does not catch: the exception leaves the order manager. And the
  record of a cancellation that timed out has the keys \<open>success\<close> and \<open>error\<close> only.
\<close>

theorem cancel_order_lets_exceptions_escape:
  "fst (OrderManager_cancel_order text_floats test_manager world_bad_gateway
          (PStr ''BTCUSDT'') (PInt 7) []) = Inl (no_attribute (PList []) ''get'')
   \<and> fst (OrderManager_get_open_orders text_floats test_manager world_bad_gateway PNone []) =
       Inl (no_attribute (PList []) ''get'')
   \<and> fst (OrderManager_cancel_order text_floats test_manager world_timeout
            (PStr ''BTCUSDT'') (PInt 7) []) =
       Inr [(''success'', PBool False), (''error'', PStr ''Request timed out'')]"
  by (simp add: fst_OrderManager_cancel_order fst_OrderManager_get_open_orders test_manager_def
        cancel_order_bad_gateway cancel_order_timeout get_open_orders_bad_gateway no_attribute_def)

end
